theory Spec2Isabelle
  imports Complex_Main "HOL-Library.Multiset"
begin

section \<open>Python exceptions\<close>

text \<open>
  Every \<^verbatim>\<open>raise\<close>, failed \<^verbatim>\<open>assert\<close> and failing library call of
  \<^verbatim>\<open>invertible_layers.py\<close> is a value: a call returns \<open>Inl\<close> of the exception
  class or \<open>Inr\<close> of its result.
\<close>

datatype error =
    NotImplementedError
  | ValueError
  | TypeError
  | NameError
  | AssertionError
  | IndexError
  | RuntimeError
  | AttributeError
  | ZeroDivisionError

section \<open>Tensors\<close>

text \<open>
  A tensor is its size, its strides and its elements in logical (row-major) order.
  The strides are kept because \<^verbatim>\<open>Tensor.view\<close> succeeds or raises depending on
  them; no other operation used by the layers looks at the memory layout.
  The element type is a parameter: the floating-point kernels are arguments of the
  model (the records \<open>torch\<close>, \<open>linalg\<close> and \<open>external\<close> below), so nothing proved
  here depends on how they round.
\<close>

record 'a tensor =
  shape :: "nat list"
  strides :: "nat list"
  data :: "'a list"

fun contiguous_strides :: "nat list \<Rightarrow> nat list" where
  "contiguous_strides [] = []"
| "contiguous_strides (n # ns) = prod_list (map (max 1) ns) # contiguous_strides ns"

definition mk :: "nat list \<Rightarrow> 'a list \<Rightarrow> 'a tensor" where
  "mk sh xs = \<lparr>shape = sh, strides = contiguous_strides sh, data = xs\<rparr>"

definition well_formed :: "'a tensor \<Rightarrow> bool" where
  "well_formed t \<longleftrightarrow>
     length (data t) = prod_list (shape t) \<and> strides t = contiguous_strides (shape t)"

text \<open>\<open>blocks k n xs\<close>: the first \<open>k\<close> consecutive pieces of length \<open>n\<close> of \<open>xs\<close>.\<close>

definition blocks :: "nat \<Rightarrow> nat \<Rightarrow> 'a list \<Rightarrow> 'a list list" where
  "blocks k n xs = map (\<lambda>i. take n (drop (i * n) xs)) [0..<k]"

text \<open>
  A tensor of size \<open>b # c # rest\<close> read along dimension 1: for each of the \<open>b\<close>
  batch entries the list of its \<open>c\<close> channels, each channel the flat list of its
  \<open>prod_list rest\<close> elements.
\<close>

definition channels :: "'a tensor \<Rightarrow> 'a list list list" where
  "channels t =
     (let b = shape t ! 0; c = shape t ! 1; m = prod_list (drop 2 (shape t))
      in map (blocks c m) (blocks b (c * m) (data t)))"

definition unchannels :: "'a list list list \<Rightarrow> 'a list" where
  "unchannels bs = concat (map concat bs)"


subsection \<open>Views: transpose, permute, contiguous, view, reshape\<close>

fun row_major :: "nat list \<Rightarrow> nat list" where
  "row_major [] = []"
| "row_major (n # ns) = prod_list ns # row_major ns"

text \<open>
  \<open>offsets sh st base\<close>: the positions \<open>base + \<Sum> i\<^sub>k * st\<^sub>k\<close> of the multi-indices
  of a tensor of size \<open>sh\<close>, in row-major order of the multi-indices.
\<close>

fun offsets :: "nat list \<Rightarrow> nat list \<Rightarrow> nat \<Rightarrow> nat list" where
  "offsets (n # ns) (s # ss) base = concat (map (\<lambda>i. offsets ns ss (base + i * s)) [0..<n])"
| "offsets _ _ base = [base]"

text \<open>
  \<^verbatim>\<open>x.permute(*p)\<close>: dimension \<open>k\<close> of the result is dimension \<open>p ! k\<close> of \<open>x\<close>. Size
  and strides are reordered; the elements are listed in the order of the new
  multi-indices.
\<close>

definition permute :: "nat list \<Rightarrow> 'a tensor \<Rightarrow> 'a tensor" where
  "permute p t =
     \<lparr>shape = map (nth (shape t)) p,
      strides = map (nth (strides t)) p,
      data = map (nth (data t))
               (offsets (map (nth (shape t)) p) (map (nth (row_major (shape t))) p) 0)\<rparr>"

definition transpose_dims :: "nat \<Rightarrow> nat \<Rightarrow> 'a tensor \<Rightarrow> 'a tensor" where
  "transpose_dims d0 d1 t = permute ([0..<length (shape t)][d0 := d1, d1 := d0]) t"

text \<open>
  \<^verbatim>\<open>is_contiguous\<close> as ATen computes it, from the last dimension to the first;
  dimensions of size 1 are skipped, a tensor without elements is contiguous.
\<close>

fun contiguous_from :: "nat \<Rightarrow> nat list \<Rightarrow> nat list \<Rightarrow> bool" where
  "contiguous_from z (n # ns) (s # ss) =
     (if n = 1 then contiguous_from z ns ss else s = z \<and> contiguous_from (z * n) ns ss)"
| "contiguous_from z _ _ = True"

definition is_contiguous :: "'a tensor \<Rightarrow> bool" where
  "is_contiguous t \<longleftrightarrow>
     prod_list (shape t) = 0 \<or> contiguous_from 1 (rev (shape t)) (rev (strides t))"

definition contiguous :: "'a tensor \<Rightarrow> 'a tensor" where
  "contiguous t = (if is_contiguous t then t else mk (shape t) (data t))"

text \<open>
  The size a \<^verbatim>\<open>view\<close> or \<^verbatim>\<open>reshape\<close> asks for, with at most one \<open>-1\<close> that is
  inferred from the number of elements.
\<close>

definition infer_size :: "int list \<Rightarrow> nat \<Rightarrow> error + nat list" where
  "infer_size sh n =
     (let known = prod_list (map nat (filter (\<lambda>d. d \<noteq> - 1) sh))
      in if 1 < length (filter (\<lambda>d. d = - 1) sh) \<or> list_ex (\<lambda>d. d < - 1) sh
         then Inl RuntimeError
         else if list_ex (\<lambda>d. d = - 1) sh then
           (if known = 0 \<or> n mod known \<noteq> 0 then Inl RuntimeError
            else Inr (map (\<lambda>d. if d = - 1 then n div known else nat d) sh))
         else if known = n then Inr (map nat sh)
         else Inl RuntimeError)"

text \<open>
  ATen's \<^verbatim>\<open>computeStride\<close>: the strides of a view of the given size, when the
  tensor's memory can be read that way. The dimensions are walked from the last to
  the first (the lists are reversed); \<open>take_view\<close> is the inner \<^verbatim>\<open>while\<close> loop that
  assigns view dimensions to the current chunk of tensor dimensions.
\<close>

fun take_view :: "nat \<Rightarrow> nat \<Rightarrow> nat \<Rightarrow> nat list \<Rightarrow> nat list \<Rightarrow> nat \<times> nat list \<times> nat list" where
  "take_view tn vn base [] acc = (vn, [], acc)"
| "take_view tn vn base (n # ns) acc =
     (if vn < tn \<or> n = 1 then take_view tn (vn * n) base ns ((vn * base) # acc)
      else (vn, n # ns, acc))"

fun compute_stride_loop ::
  "nat list \<Rightarrow> nat list \<Rightarrow> nat \<Rightarrow> nat \<Rightarrow> nat list \<Rightarrow> nat list \<Rightarrow> nat list option" where
  "compute_stride_loop (n # ns) (s # ss) tn base vs acc =
     (let tn' = tn * n
      in if ns = [] \<or> ss = [] \<or> (hd ns \<noteq> 1 \<and> hd ss \<noteq> tn' * base) then
           (case take_view tn' 1 base vs acc of
              (vn, vs', acc') \<Rightarrow>
                if vn \<noteq> tn' then None
                else if ns = [] \<or> ss = [] then (if vs' = [] then Some acc' else None)
                else compute_stride_loop ns ss 1 (hd ss) vs' acc')
         else compute_stride_loop ns ss tn' base vs acc)"
| "compute_stride_loop _ _ tn base vs acc = (if vs = [] then Some acc else None)"

definition compute_stride :: "nat list \<Rightarrow> nat list \<Rightarrow> nat list \<Rightarrow> nat list option" where
  "compute_stride oldshape oldstride newshape =
     (if oldshape = [] then Some (replicate (length newshape) 1)
      else if prod_list oldshape = 0 then
        Some (if oldshape = newshape then oldstride else contiguous_strides newshape)
      else compute_stride_loop (rev oldshape) (rev oldstride) 1 (last oldstride)
             (rev newshape) [])"

definition view :: "'a tensor \<Rightarrow> int list \<Rightarrow> error + 'a tensor" where
  "view t sh =
     (case infer_size sh (prod_list (shape t)) of
        Inl e \<Rightarrow> Inl e
      | Inr ns \<Rightarrow>
          (case compute_stride (shape t) (strides t) ns of
             None \<Rightarrow> Inl RuntimeError
           | Some st \<Rightarrow> Inr \<lparr>shape = ns, strides = st, data = data t\<rparr>))"

text \<open>\<^verbatim>\<open>reshape\<close> is the view when there is one, and a contiguous copy otherwise.\<close>

definition reshape :: "'a tensor \<Rightarrow> int list \<Rightarrow> error + 'a tensor" where
  "reshape t sh =
     (case infer_size sh (prod_list (shape t)) of
        Inl e \<Rightarrow> Inl e
      | Inr ns \<Rightarrow>
          (case compute_stride (shape t) (strides t) ns of
             None \<Rightarrow> Inr (mk ns (data t))
           | Some st \<Rightarrow> Inr \<lparr>shape = ns, strides = st, data = data t\<rparr>))"

text \<open>\<^verbatim>\<open>x.squeeze()\<close> drops every dimension of size 1; \<^verbatim>\<open>x.unsqueeze(-1)\<close> adds one last.\<close>

definition squeeze_all :: "'a tensor \<Rightarrow> 'a tensor" where
  "squeeze_all t =
     \<lparr>shape = map fst (filter (\<lambda>(n, s). n \<noteq> 1) (zip (shape t) (strides t))),
      strides = map snd (filter (\<lambda>(n, s). n \<noteq> 1) (zip (shape t) (strides t))),
      data = data t\<rparr>"

definition unsqueeze_last :: "'a tensor \<Rightarrow> 'a tensor" where
  "unsqueeze_last t = \<lparr>shape = shape t @ [1], strides = strides t @ [1], data = data t\<rparr>"

subsection \<open>Indexing and slicing along dimension 1\<close>

text \<open>\<^verbatim>\<open>x[:, idx]\<close> with an index tensor: a new tensor holding the selected channels.\<close>

definition index_dim1 :: "'a tensor \<Rightarrow> nat list \<Rightarrow> error + 'a tensor" where
  "index_dim1 x idx =
     (if length (shape x) < 2 then Inl IndexError
      else if list_ex (\<lambda>i. shape x ! 1 \<le> i) idx then Inl IndexError
      else Inr (mk (shape x ! 0 # length idx # drop 2 (shape x))
                  (unchannels (map (\<lambda>cs. map (nth cs) idx) (channels x)))))"

text \<open>
  \<^verbatim>\<open>x[:, start::step]\<close> and the pieces of \<^verbatim>\<open>torch.chunk(x, 2, dim=1)\<close> are views:
  \<open>select_dim1 x js\<close> is \<open>x\<close> read at the channels \<open>js\<close> (the strides given apart).
\<close>

definition select_dim1 :: "'a tensor \<Rightarrow> nat list \<Rightarrow> nat list \<Rightarrow> 'a tensor" where
  "select_dim1 x js st =
     \<lparr>shape = (shape x)[1 := length js], strides = st,
      data = unchannels (map (\<lambda>cs. map (nth cs) js) (channels x))\<rparr>"

definition slice_dim1 :: "'a tensor \<Rightarrow> nat \<Rightarrow> nat \<Rightarrow> error + 'a tensor" where
  "slice_dim1 x start step =
     (if length (shape x) < 2 then Inl IndexError
      else Inr (select_dim1 x (filter (\<lambda>j. start \<le> j \<and> (j - start) mod step = 0) [0..<shape x ! 1])
                  ((strides x)[1 := step * strides x ! 1])))"

text \<open>
  \<^verbatim>\<open>torch.chunk(x, 2, dim=1)\<close>: pieces of \<open>\<lceil>c / 2\<rceil>\<close> channels. One channel gives one
  piece, no channel gives two empty ones. A piece is the range of channels it
  covers, \<open>(start, length)\<close>.
\<close>

definition chunk2 :: "nat \<Rightarrow> (nat \<times> nat) list" where
  "chunk2 c =
     (let k = (c + 1) div 2
      in if c = 0 then [(0, 0), (0, 0)]
         else if c \<le> k then [(0, c)]
         else [(0, k), (k, c - k)])"

definition narrow_dim1 :: "'a tensor \<Rightarrow> nat \<times> nat \<Rightarrow> 'a tensor" where
  "narrow_dim1 x r = select_dim1 x [fst r..<fst r + snd r] (strides x)"

text \<open>
  Writing through a piece of \<^verbatim>\<open>torch.chunk\<close>: the piece shares the memory of \<open>x\<close>,
  so an in-place operation on it replaces the channels of \<open>x\<close> that it covers. \<open>vs\<close>
  are the new elements of the piece in its logical order.
\<close>

definition write_dim1 :: "'a tensor \<Rightarrow> nat \<times> nat \<Rightarrow> 'a list \<Rightarrow> 'a tensor" where
  "write_dim1 x r vs =
     (let m = prod_list (drop 2 (shape x))
      in x\<lparr>data := unchannels
                     (map (\<lambda>(cs, ws). take (fst r) cs @ ws @ drop (fst r + snd r) cs)
                        (zip (channels x) (map (blocks (snd r) m) (blocks (shape x ! 0) (snd r * m) vs))))\<rparr>)"

text \<open>\<^verbatim>\<open>torch.cat([a, b], dim=1)\<close>: the sizes must agree in every other dimension.\<close>

definition cat_dim1 :: "'a tensor \<Rightarrow> 'a tensor \<Rightarrow> error + 'a tensor" where
  "cat_dim1 a b =
     (if shape a = [] \<or> shape b = [] then Inl RuntimeError
      else if length (shape a) < 2 \<or> length (shape b) < 2 then Inl IndexError
      else if (shape a)[1 := 0] \<noteq> (shape b)[1 := 0] then Inl RuntimeError
      else Inr (mk ((shape a)[1 := shape a ! 1 + shape b ! 1])
                  (unchannels (map (\<lambda>(cs, ds). cs @ ds) (zip (channels a) (channels b))))))"

subsection \<open>Element-wise operations and broadcasting\<close>

text \<open>
  \<open>expand_data sh src xs\<close>: the elements \<open>xs\<close> of a tensor of size \<open>src\<close> repeated to
  size \<open>sh\<close>; a dimension of \<open>src\<close> is the one of \<open>sh\<close> or 1.
\<close>

fun expand_data :: "nat list \<Rightarrow> nat list \<Rightarrow> 'a list \<Rightarrow> 'a list" where
  "expand_data (n # ns) (m # ms) xs =
     (if m = n then concat (map (expand_data ns ms) (blocks m (prod_list ms) xs))
      else concat (replicate n (expand_data ns ms xs)))"
| "expand_data _ _ xs = xs"

definition broadcast_to :: "nat list \<Rightarrow> 'a tensor \<Rightarrow> error + 'a list" where
  "broadcast_to sh t =
     (let src = replicate (length sh - length (shape t)) 1 @ shape t
      in if length (shape t) \<le> length sh \<and> list_all2 (\<lambda>n m. m = n \<or> m = 1) sh src
         then Inr (expand_data sh src (data t))
         else Inl RuntimeError)"

text \<open>The size two operands broadcast to, aligned at the last dimension.\<close>

fun broadcast_rev :: "nat list \<Rightarrow> nat list \<Rightarrow> nat list option" where
  "broadcast_rev [] ms = Some ms"
| "broadcast_rev ns [] = Some ns"
| "broadcast_rev (n # ns) (m # ms) =
     (if n = m \<or> m = 1 then map_option ((#) n) (broadcast_rev ns ms)
      else if n = 1 then map_option ((#) m) (broadcast_rev ns ms)
      else None)"

definition broadcast_shapes :: "nat list \<Rightarrow> nat list \<Rightarrow> nat list option" where
  "broadcast_shapes a b = map_option rev (broadcast_rev (rev a) (rev b))"

text \<open>\<open>a op b\<close> for tensors, a new tensor; and \<open>a op= b\<close>, the new elements of \<open>a\<close>.\<close>

definition binary :: "('a \<Rightarrow> 'a \<Rightarrow> 'a) \<Rightarrow> 'a tensor \<Rightarrow> 'a tensor \<Rightarrow> error + 'a tensor" where
  "binary f a b =
     (case broadcast_shapes (shape a) (shape b) of
        None \<Rightarrow> Inl RuntimeError
      | Some sh \<Rightarrow>
          (case (broadcast_to sh a, broadcast_to sh b) of
             (Inr xs, Inr ys) \<Rightarrow> Inr (mk sh (map2 f xs ys))
           | _ \<Rightarrow> Inl RuntimeError))"

definition in_place :: "('a \<Rightarrow> 'a \<Rightarrow> 'a) \<Rightarrow> 'a tensor \<Rightarrow> 'a tensor \<Rightarrow> error + 'a list" where
  "in_place f a b =
     (case broadcast_to (shape a) b of
        Inl e \<Rightarrow> Inl e
      | Inr ys \<Rightarrow> Inr (map2 f (data a) ys))"

definition unary :: "('a \<Rightarrow> 'a) \<Rightarrow> 'a tensor \<Rightarrow> 'a tensor" where
  "unary f a = mk (shape a) (map f (data a))"

section \<open>Layers\<close>

text \<open>A called \<^verbatim>\<open>nn.Module\<close> of \<^verbatim>\<open>layers.py\<close>: a function on tensors that may raise.\<close>

type_synonym 'a module = "'a tensor \<Rightarrow> error + 'a tensor"

text \<open>
  The layer objects with the attributes each class stores. \<^verbatim>\<open>Reverse\<close> is a
  \<^verbatim>\<open>Shuffle\<close>, \<^verbatim>\<open>Split\<close> a \<^verbatim>\<open>Squeeze\<close> with a convolution, and
  \<^verbatim>\<open>RevNetStep\<close>, \<^verbatim>\<open>RevNet\<close> and \<^verbatim>\<open>Codec\<close> are \<^verbatim>\<open>LayerList\<close>s; none of them
  overrides a method of the class it extends other than the ones listed here.
  \<^verbatim>\<open>ActNorm\<close> has no objects: its constructor raises.
\<close>

datatype 'a layer =
    Shuffle (indices: "nat list") (rev_indices: "nat list")
  | Invertible1x1Conv (weight: "'a tensor")
  | Squeeze (factor: nat) (input_shape: "nat list")
  | Split (factor: nat) (input_shape: "nat list") (conv_zero: "'a module")
  | GaussianPrior (conv: "'a module option")
  | AdditiveCoupling (NN: "'a module")
  | AffineCoupling (NN: "'a module")
  | BatchNorm (training: bool) (eps: 'a) (momentum: 'a)
      (running_mean: "'a tensor") (running_var: "'a tensor")
  | LayerList (layers: "'a layer list")

text \<open>
  What the model takes from outside \<^verbatim>\<open>invertible_layers.py\<close>.

  The scalar floating-point kernels: \<open>lit m e\<close> is the float of the literal
  \<open>m\<close>e\<open>e\<close> (and of the Python integer \<open>m\<close> when \<open>e = 0\<close>), \<open>f_sum\<close> the reduction
  \<^verbatim>\<open>torch.sum\<close> of a list of elements.
\<close>

record 'a torch =
  lit :: "int \<Rightarrow> int \<Rightarrow> 'a"
  f_add :: "'a \<Rightarrow> 'a \<Rightarrow> 'a"
  f_sub :: "'a \<Rightarrow> 'a \<Rightarrow> 'a"
  f_mul :: "'a \<Rightarrow> 'a \<Rightarrow> 'a"
  f_div :: "'a \<Rightarrow> 'a \<Rightarrow> 'a"
  f_pow :: "'a \<Rightarrow> 'a \<Rightarrow> 'a"
  f_clamp_min :: "'a \<Rightarrow> 'a \<Rightarrow> 'a"
  f_log :: "'a \<Rightarrow> 'a"
  f_abs :: "'a \<Rightarrow> 'a"
  f_sigmoid :: "'a \<Rightarrow> 'a"
  f_sum :: "'a list \<Rightarrow> 'a"

text \<open>
  \<^verbatim>\<open>torch.det\<close>, \<^verbatim>\<open>torch.inverse\<close> and \<^verbatim>\<open>F.conv2d(x, weight)\<close> with no bias and the
  default stride, padding, dilation and groups of \<^verbatim>\<open>nn.Conv2d\<close>.
\<close>

record 'a linalg =
  torch_det :: "'a tensor \<Rightarrow> error + 'a"
  torch_inverse :: "'a tensor \<Rightarrow> error + 'a tensor"
  F_conv2d :: "'a tensor \<Rightarrow> 'a tensor \<Rightarrow> error + 'a tensor"

text \<open>
  The object \<^verbatim>\<open>gaussian_diag(mean, logsd)\<close> of \<^verbatim>\<open>utils.py\<close> returns (a method
  \<^verbatim>\<open>logp\<close> and an attribute \<^verbatim>\<open>sample\<close>), and
  \<^verbatim>\<open>F.batch_norm(input, running_mean, running_var, None, None, training, momentum, eps)\<close>.
\<close>

record 'a gaussian =
  logp :: "'a tensor \<Rightarrow> error + 'a tensor"
  sample :: "'a tensor"

record 'a external =
  gaussian_diag :: "'a tensor \<Rightarrow> 'a tensor \<Rightarrow> error + 'a gaussian"
  F_batch_norm :: "'a tensor \<Rightarrow> 'a tensor \<Rightarrow> 'a tensor \<Rightarrow> bool \<Rightarrow> 'a \<Rightarrow> 'a \<Rightarrow> error + 'a tensor"

text \<open>
  The constructors \<^verbatim>\<open>NN(channels_in, channels_out=...)\<close> and
  \<^verbatim>\<open>Conv2dZeroInit(channels_in, channels_out, ...)\<close> of \<^verbatim>\<open>layers.py\<close>, and numpy's
  in-place shuffle, which reads and advances the ambient generator state \<open>'g\<close>.
\<close>

record ('a, 'g) ambient =
  NN_new :: "nat \<Rightarrow> nat option \<Rightarrow> 'a module"
  Conv2dZeroInit_new :: "nat \<Rightarrow> nat \<Rightarrow> 'a module"
  np_random_shuffle :: "'g \<Rightarrow> nat list \<Rightarrow> nat list \<times> 'g"

record args =
  args_norm :: "string option"
  args_permutation :: string
  args_coupling :: string
  args_depth :: nat
  args_n_levels :: nat
  args_learntop :: bool

subsection \<open>Shuffle and Reverse\<close>

text \<open>
  The loop \<^verbatim>\<open>for i in range(num_channels): rev_indices[indices[i]] = i\<close>.
  An index outside the array raises.
\<close>

fun rev_indices_loop :: "nat list \<Rightarrow> nat list \<Rightarrow> nat list \<Rightarrow> error + nat list" where
  "rev_indices_loop idx r [] = Inr r"
| "rev_indices_loop idx r (i # js) =
     (if i < length idx \<and> idx ! i < length r
      then rev_indices_loop idx (r[idx ! i := i]) js
      else Inl IndexError)"

text \<open>
  \<^verbatim>\<open>nn.Module.__init__\<close> takes no argument; \<^verbatim>\<open>nn.Conv2d.__init__\<close> requires
  \<^verbatim>\<open>in_channels\<close>, \<^verbatim>\<open>out_channels\<close> and \<^verbatim>\<open>kernel_size\<close>. The positional arguments
  after \<^verbatim>\<open>self\<close> are a list: Python raises \<^verbatim>\<open>TypeError\<close> when a call does not
  supply what the signature requires.
\<close>

definition Module_init :: "nat list \<Rightarrow> error + unit" where
  "Module_init arguments = (if arguments = [] then Inr () else Inl TypeError)"

definition Conv2d_init :: "nat list \<Rightarrow> error + unit" where
  "Conv2d_init arguments = (if length arguments < 3 then Inl TypeError else Inr ())"

text \<open>
  \<^verbatim>\<open>Layer.__init__\<close> is \<^verbatim>\<open>super(Layer, self).__init__()\<close>: a call, with no argument,
  of the constructor that follows \<^verbatim>\<open>Layer\<close> in the method resolution order of the
  object's class. That is \<^verbatim>\<open>nn.Module\<close> for every class of the file but
  \<^verbatim>\<open>Invertible1x1Conv(Layer, nn.Conv2d)\<close>, where it is \<^verbatim>\<open>nn.Conv2d\<close>.
\<close>

definition Layer_init :: "(nat list \<Rightarrow> error + unit) \<Rightarrow> error + unit" where
  "Layer_init next_init = next_init []"

text \<open>
  \<^verbatim>\<open>Shuffle.__init__(self, num_channels)\<close>. The positional arguments after
  \<^verbatim>\<open>self\<close> are a list: Python raises \<^verbatim>\<open>TypeError\<close> when the call does not
  supply exactly the one the signature requires. The conversions
  \<^verbatim>\<open>torch.from_numpy(...).long()\<close> and \<^verbatim>\<open>.cuda()\<close> keep the indices; a CUDA device
  is taken to be present, as every constructor of a permutation layer needs one.
\<close>

definition Shuffle_init ::
  "('a, 'g) ambient \<Rightarrow> 'g \<Rightarrow> nat list \<Rightarrow> error + 'a layer \<times> 'g" where
  "Shuffle_init A g arguments =
     (case arguments of
        [num_channels] \<Rightarrow>
          (case Layer_init Module_init of
             Inl e \<Rightarrow> Inl e
           | Inr _ \<Rightarrow>
               (let (idx, g') = np_random_shuffle A g [0..<num_channels]
                in case rev_indices_loop idx (replicate (length idx) 0) [0..<num_channels] of
                     Inl e \<Rightarrow> Inl e
                   | Inr r \<Rightarrow> Inr (Shuffle idx r, g')))
      | _ \<Rightarrow> Inl TypeError)"

text \<open>
  \<^verbatim>\<open>Reverse.__init__(self, num_channels)\<close>: its first statement is
  \<^verbatim>\<open>super(Reverse, self).__init__()\<close>, a call of \<^verbatim>\<open>Shuffle.__init__\<close> with no
  argument. The statement after it reads the name \<^verbatim>\<open>num_channel\<close>, which is
  not the parameter \<^verbatim>\<open>num_channels\<close> and is bound nowhere in the file.
\<close>

definition Reverse_init ::
  "('a, 'g) ambient \<Rightarrow> 'g \<Rightarrow> nat \<Rightarrow> error + 'a layer \<times> 'g" where
  "Reverse_init A g num_channels =
     (case Shuffle_init A g [] of
        Inl e \<Rightarrow> Inl e
      | Inr (self, g') \<Rightarrow> Inl NameError)"

subsection \<open>The other constructors a flow step calls\<close>

text \<open>
  \<^verbatim>\<open>Invertible1x1Conv.__init__\<close> starts with
  \<^verbatim>\<open>super(Invertible1x1Conv, self).__init__()\<close>, which runs \<^verbatim>\<open>Layer.__init__\<close>
  with \<^verbatim>\<open>nn.Conv2d\<close> next in the resolution order. What follows it,
  \<^verbatim>\<open>nn.Conv2d.__init__(self, num_channels, num_channels, 1, bias=False)\<close>, calls the
  overridden \<^verbatim>\<open>reset_parameters\<close>, whose \<^verbatim>\<open>np.random.randn((n, n))\<close> passes a tuple
  where integers are required.
\<close>

definition Invertible1x1Conv_init ::
  "('a, 'g) ambient \<Rightarrow> 'g \<Rightarrow> nat \<Rightarrow> error + 'a layer \<times> 'g" where
  "Invertible1x1Conv_init A g num_channels =
     (case Layer_init Conv2d_init of
        Inl e \<Rightarrow> Inl e
      | Inr _ \<Rightarrow>
          (case Conv2d_init [num_channels, num_channels, 1] of
             Inl e \<Rightarrow> Inl e
           | Inr _ \<Rightarrow> Inl TypeError))"

definition ActNorm_init :: "error + 'a layer" where
  "ActNorm_init = Inl NotImplementedError"

text \<open>
  \<^verbatim>\<open>BatchNorm.__init__(num_features, eps=1e-5, momentum=0.1)\<close> runs
  \<^verbatim>\<open>_BatchNorm.__init__\<close> with \<^verbatim>\<open>affine=False\<close>: running mean zeros, running
  variance ones, and a new module is in training mode.
\<close>

definition BatchNorm_init :: "'a torch \<Rightarrow> nat \<Rightarrow> 'a layer" where
  "BatchNorm_init T num_features =
     BatchNorm True (lit T 1 (- 5)) (lit T 1 (- 1))
       (mk [num_features] (replicate num_features (lit T 0 0)))
       (mk [num_features] (replicate num_features (lit T 1 0)))"

definition AdditiveCoupling_init :: "('a, 'g) ambient \<Rightarrow> nat \<Rightarrow> error + 'a layer" where
  "AdditiveCoupling_init A num_features =
     (if num_features mod 2 = 0
      then Inr (AdditiveCoupling (NN_new A (num_features div 2) None))
      else Inl AssertionError)"

definition AffineCoupling_init :: "('a, 'g) ambient \<Rightarrow> nat \<Rightarrow> 'a layer" where
  "AffineCoupling_init A num_features =
     AffineCoupling (NN_new A (num_features div 2) (Some num_features))"

subsection \<open>RevNetStep\<close>

text \<open>
  The three \<^verbatim>\<open>if\<close>/\<^verbatim>\<open>elif\<close> chains of \<^verbatim>\<open>RevNetStep.__init__\<close>, each
  giving the layers it appends. \<^verbatim>\<open>assert not args.norm\<close> passes on \<^verbatim>\<open>None\<close> and
  on the empty string.
\<close>

definition norm_layers ::
  "'a torch \<Rightarrow> nat \<Rightarrow> args \<Rightarrow> error + 'a layer list" where
  "norm_layers T num_channels a =
     (if args_norm a = Some ''actnorm'' then
        (case ActNorm_init of Inl e \<Rightarrow> Inl e | Inr l \<Rightarrow> Inr [l])
      else if args_norm a = Some ''batchnorm'' then Inr [BatchNorm_init T num_channels]
      else if args_norm a = None \<or> args_norm a = Some [] then Inr []
      else Inl AssertionError)"

definition permutation_layers ::
  "('a, 'g) ambient \<Rightarrow> 'g \<Rightarrow> nat \<Rightarrow> args \<Rightarrow> error + 'a layer list \<times> 'g" where
  "permutation_layers A g num_channels a =
     (if args_permutation a = ''reverse'' then
        (case Reverse_init A g num_channels of Inl e \<Rightarrow> Inl e | Inr (l, g') \<Rightarrow> Inr ([l], g'))
      else if args_permutation a = ''shuffle'' then
        (case Shuffle_init A g [num_channels] of Inl e \<Rightarrow> Inl e | Inr (l, g') \<Rightarrow> Inr ([l], g'))
      else if args_permutation a = ''conv'' then
        (case Invertible1x1Conv_init A g num_channels of
           Inl e \<Rightarrow> Inl e | Inr (l, g') \<Rightarrow> Inr ([l], g'))
      else Inl ValueError)"

definition coupling_layers ::
  "('a, 'g) ambient \<Rightarrow> nat \<Rightarrow> args \<Rightarrow> error + 'a layer list" where
  "coupling_layers A num_channels a =
     (if args_coupling a = ''additive'' then
        (case AdditiveCoupling_init A num_channels of Inl e \<Rightarrow> Inl e | Inr l \<Rightarrow> Inr [l])
      else if args_coupling a = ''affine'' then Inr [AffineCoupling_init A num_channels]
      else Inl ValueError)"

definition RevNetStep_init ::
  "'a torch \<Rightarrow> ('a, 'g) ambient \<Rightarrow> 'g \<Rightarrow> nat \<Rightarrow> args \<Rightarrow> error + 'a layer \<times> 'g" where
  "RevNetStep_init T A g num_channels a =
     (case norm_layers T num_channels a of
        Inl e \<Rightarrow> Inl e
      | Inr ns \<Rightarrow>
          (case permutation_layers A g num_channels a of
             Inl e \<Rightarrow> Inl e
           | Inr (ps, g') \<Rightarrow>
               (case coupling_layers A num_channels a of
                  Inl e \<Rightarrow> Inl e
                | Inr cs \<Rightarrow> Inr (LayerList (ns @ ps @ cs), g'))))"

text \<open>The class of a layer object, to state in which order a step holds its layers.\<close>

datatype kind =
    Normalization
  | Permutation
  | Coupling
  | Other

fun kind_of :: "'a layer \<Rightarrow> kind" where
  "kind_of (BatchNorm _ _ _ _ _) = Normalization"
| "kind_of (Shuffle _ _) = Permutation"
| "kind_of (Invertible1x1Conv _) = Permutation"
| "kind_of (AdditiveCoupling _) = Coupling"
| "kind_of (AffineCoupling _) = Coupling"
| "kind_of _ = Other"


section \<open>The methods of the layers\<close>

text \<open>
  A method takes the array (\<open>None\<close> for Python's \<^verbatim>\<open>None\<close>) and the objective and
  returns the pair the source returns, or the exception it raises.
\<close>

type_synonym 'a result = "error + 'a tensor option \<times> 'a"

subsection \<open>Layer\<close>

definition Layer_forward_and_jacobian :: "'a tensor option \<Rightarrow> 'a \<Rightarrow> 'a result" where
  "Layer_forward_and_jacobian x objective = Inl NotImplementedError"

definition Layer_reverse_and_jacobian :: "'a tensor option \<Rightarrow> 'a \<Rightarrow> 'a result" where
  "Layer_reverse_and_jacobian y objective = Inl NotImplementedError"

subsection \<open>Shuffle\<close>

definition Shuffle_forward_and_jacobian ::
  "nat list \<Rightarrow> 'a tensor option \<Rightarrow> 'a \<Rightarrow> 'a result" where
  "Shuffle_forward_and_jacobian idx x objective =
     (case x of
        None \<Rightarrow> Inl TypeError
      | Some t \<Rightarrow>
          (case index_dim1 t idx of Inl e \<Rightarrow> Inl e | Inr y \<Rightarrow> Inr (Some y, objective)))"

definition Shuffle_reverse_and_jacobian ::
  "nat list \<Rightarrow> 'a tensor option \<Rightarrow> 'a \<Rightarrow> 'a result" where
  "Shuffle_reverse_and_jacobian ridx x objective =
     (case x of
        None \<Rightarrow> Inl TypeError
      | Some t \<Rightarrow>
          (case index_dim1 t ridx of Inl e \<Rightarrow> Inl e | Inr y \<Rightarrow> Inr (Some y, objective)))"

subsection \<open>Invertible1x1Conv\<close>

text \<open>
  \<^verbatim>\<open>torch.det(self.weight.squeeze()).abs().log() * x.size(-2) * x.size(-1)\<close>, the
  determinant evaluated before the sizes are read.
\<close>

definition dlogdet :: "'a torch \<Rightarrow> 'a linalg \<Rightarrow> 'a tensor \<Rightarrow> 'a tensor option \<Rightarrow> error + 'a" where
  "dlogdet T L w x =
     (case torch_det L (squeeze_all w) of
        Inl e \<Rightarrow> Inl e
      | Inr d \<Rightarrow>
          (case x of
             None \<Rightarrow> Inl AttributeError
           | Some t \<Rightarrow>
               if length (shape t) < 2 then Inl IndexError
               else Inr (f_mul T
                           (f_mul T (f_log T (f_abs T d))
                              (lit T (int (shape t ! (length (shape t) - 2))) 0))
                           (lit T (int (shape t ! (length (shape t) - 1))) 0))))"

definition Invertible1x1Conv_forward_and_jacobian ::
  "'a torch \<Rightarrow> 'a linalg \<Rightarrow> 'a tensor \<Rightarrow> 'a tensor option \<Rightarrow> 'a \<Rightarrow> 'a result" where
  "Invertible1x1Conv_forward_and_jacobian T L w x objective =
     (case dlogdet T L w x of
        Inl e \<Rightarrow> Inl e
      | Inr d \<Rightarrow>
          (case x of
             None \<Rightarrow> Inl TypeError
           | Some t \<Rightarrow>
               (case F_conv2d L t w of
                  Inl e \<Rightarrow> Inl e
                | Inr output \<Rightarrow> Inr (Some output, f_add T objective d))))"

definition Invertible1x1Conv_reverse_and_jacobian ::
  "'a torch \<Rightarrow> 'a linalg \<Rightarrow> 'a tensor \<Rightarrow> 'a tensor option \<Rightarrow> 'a \<Rightarrow> 'a result" where
  "Invertible1x1Conv_reverse_and_jacobian T L w x objective =
     (case dlogdet T L w x of
        Inl e \<Rightarrow> Inl e
      | Inr d \<Rightarrow>
          (case torch_inverse L (squeeze_all w) of
             Inl e \<Rightarrow> Inl e
           | Inr wi \<Rightarrow>
               (case x of
                  None \<Rightarrow> Inl TypeError
                | Some t \<Rightarrow>
                    (case F_conv2d L t (unsqueeze_last (unsqueeze_last wi)) of
                       Inl e \<Rightarrow> Inl e
                     | Inr output \<Rightarrow> Inr (Some output, f_sub T objective d)))))"

subsection \<open>Squeeze\<close>

definition Squeeze_init :: "nat list \<Rightarrow> nat \<Rightarrow> error + 'a layer" where
  "Squeeze_init sh f = (if 1 < f then Inr (Squeeze f sh) else Inl AssertionError)"

definition squeeze_bchw :: "nat \<Rightarrow> 'a tensor \<Rightarrow> error + 'a tensor" where
  "squeeze_bchw f x =
     (case shape x of
        [bs, c, h, w] \<Rightarrow>
          if f = 0 then Inl ZeroDivisionError
          else if h mod f = 0 \<and> w mod f = 0 then
            (case reshape (contiguous (transpose_dims 3 1 x))
                    [- 1, int (h div f), int f, int (w div f), int f, int c] of
               Inl e \<Rightarrow> Inl e
             | Inr x2 \<Rightarrow>
                 (case reshape (permute [0, 1, 3, 5, 2, 4] x2)
                         [- 1, int (h div f), int (w div f), int (c * f ^ 2)] of
                    Inl e \<Rightarrow> Inl e
                  | Inr x4 \<Rightarrow> Inr (contiguous (transpose_dims 3 1 x4))))
          else Inl AssertionError
      | _ \<Rightarrow> Inl ValueError)"

definition unsqueeze_bchw :: "nat \<Rightarrow> 'a tensor \<Rightarrow> error + 'a tensor" where
  "unsqueeze_bchw f x =
     (case shape x of
        [bs, c, h, w] \<Rightarrow>
          if 4 \<le> c \<and> c mod 4 = 0 then
            if f = 0 then Inl ZeroDivisionError
            else
              (case view (contiguous (transpose_dims 3 1 x))
                      [- 1, int h, int w, int (c div f ^ 2), int f, int f] of
                 Inl e \<Rightarrow> Inl e
               | Inr x2 \<Rightarrow>
                   (case view (permute [0, 1, 4, 2, 5, 3] x2)
                           [- 1, int (h * w), int (w * f), int (c div f ^ 2)] of
                      Inl e \<Rightarrow> Inl e
                    | Inr x4 \<Rightarrow> Inr (contiguous (transpose_dims 3 1 x4))))
          else Inl AssertionError
      | _ \<Rightarrow> Inl ValueError)"

definition Squeeze_forward_and_jacobian ::
  "nat \<Rightarrow> 'a tensor option \<Rightarrow> 'a \<Rightarrow> 'a result" where
  "Squeeze_forward_and_jacobian f x objective =
     (case x of
        None \<Rightarrow> Inl AttributeError
      | Some t \<Rightarrow>
          if length (shape t) \<noteq> 4 then Inl NotImplementedError
          else (case squeeze_bchw f t of Inl e \<Rightarrow> Inl e | Inr y \<Rightarrow> Inr (Some y, objective)))"

definition Squeeze_reverse_and_jacobian ::
  "nat \<Rightarrow> 'a tensor option \<Rightarrow> 'a \<Rightarrow> 'a result" where
  "Squeeze_reverse_and_jacobian f x objective =
     (case x of
        None \<Rightarrow> Inl AttributeError
      | Some t \<Rightarrow>
          if length (shape t) \<noteq> 4 then Inl NotImplementedError
          else (case unsqueeze_bchw f t of Inl e \<Rightarrow> Inl e | Inr y \<Rightarrow> Inr (Some y, objective)))"

definition output_shape :: "'a layer \<Rightarrow> error + nat list" where
  "output_shape l =
     (case l of
        Squeeze f sh \<Rightarrow>
          (case sh of
             [bs, c, h, w] \<Rightarrow>
               if f = 0 then Inl ZeroDivisionError else Inr [bs, c * f * f, h div f, w div f]
           | _ \<Rightarrow> Inl ValueError)
      | Split f sh cz \<Rightarrow>
          (case sh of [bs, c, h, w] \<Rightarrow> Inr [bs, c * 2, h div 2, w div 2] | _ \<Rightarrow> Inl ValueError)
      | _ \<Rightarrow> Inl AttributeError)"

subsection \<open>Split\<close>

definition Split_init :: "('a, 'g) ambient \<Rightarrow> nat list \<Rightarrow> error + 'a layer" where
  "Split_init A sh =
     (case sh of
        [bs, c, h, w] \<Rightarrow> Inr (Split 2 sh (Conv2dZeroInit_new A (c div 2) c))
      | _ \<Rightarrow> Inl ValueError)"

definition split2d_prior :: "'a external \<Rightarrow> 'a module \<Rightarrow> 'a tensor \<Rightarrow> error + 'a gaussian" where
  "split2d_prior X cz x =
     (case cz x of
        Inl e \<Rightarrow> Inl e
      | Inr h \<Rightarrow>
          (case slice_dim1 h 0 2 of
             Inl e \<Rightarrow> Inl e
           | Inr mean \<Rightarrow>
               (case slice_dim1 h 1 2 of
                  Inl e \<Rightarrow> Inl e
                | Inr logs \<Rightarrow> gaussian_diag X mean logs)))"

definition Split_forward_and_jacobian ::
  "'a torch \<Rightarrow> 'a external \<Rightarrow> nat \<Rightarrow> 'a module \<Rightarrow> 'a tensor option \<Rightarrow> 'a \<Rightarrow> 'a result" where
  "Split_forward_and_jacobian T X f cz x objective =
     (case x of
        None \<Rightarrow> Inl AttributeError
      | Some t \<Rightarrow>
          (case shape t of
             [bs, c, h, w] \<Rightarrow>
               (case chunk2 c of
                  [r1, r2] \<Rightarrow>
                    (case split2d_prior X cz (narrow_dim1 t r1) of
                       Inl e \<Rightarrow> Inl e
                     | Inr pz \<Rightarrow>
                         (case logp pz (narrow_dim1 t r2) of
                            Inl e \<Rightarrow> Inl e
                          | Inr lp \<Rightarrow>
                              (case squeeze_bchw f (narrow_dim1 t r1) of
                                 Inl e \<Rightarrow> Inl e
                               | Inr z1 \<Rightarrow>
                                   Inr (Some z1, f_add T objective (f_sum T (data lp))))))
                | _ \<Rightarrow> Inl ValueError)
           | _ \<Rightarrow> Inl ValueError))"

text \<open>
  \<^verbatim>\<open>Split.reverse_and_jacobian\<close> starts with \<^verbatim>\<open>z1 = unsqueeze_bchw(x)\<close>: the bare
  name, not \<^verbatim>\<open>self.unsqueeze_bchw\<close>. At module level the file binds its imports
  and its classes; \<^verbatim>\<open>unsqueeze_bchw\<close> and \<^verbatim>\<open>split2d_prior\<close> are bound only as
  methods, so reading the name raises before anything is computed. (From
  \<^verbatim>\<open>layers\<close> and \<^verbatim>\<open>utils\<close> the file takes \<^verbatim>\<open>NN\<close>, \<^verbatim>\<open>Conv2dZeroInit\<close> and
  \<^verbatim>\<open>gaussian_diag\<close>; a function of one argument bound there under either name
  could reach neither \<^verbatim>\<open>self.factor\<close> nor \<^verbatim>\<open>self.conv_zero\<close>.)
\<close>

definition Split_reverse_and_jacobian :: "'a tensor option \<Rightarrow> 'a \<Rightarrow> 'a result" where
  "Split_reverse_and_jacobian x objective = Inl NameError"

subsection \<open>GaussianPrior\<close>

definition GaussianPrior_init :: "('a, 'g) ambient \<Rightarrow> nat list \<Rightarrow> args \<Rightarrow> error + 'a layer" where
  "GaussianPrior_init A sh a =
     (if args_learntop a then
        (if length sh < 2 then Inl IndexError
         else Inr (GaussianPrior (Some (Conv2dZeroInit_new A (sh ! 1) (2 * sh ! 1)))))
      else Inr (GaussianPrior None))"

definition GaussianPrior_forward_and_jacobian ::
  "'a torch \<Rightarrow> 'a external \<Rightarrow> 'a module option \<Rightarrow> 'a tensor option \<Rightarrow> 'a \<Rightarrow> 'a result" where
  "GaussianPrior_forward_and_jacobian T X cv x objective =
     (case x of
        None \<Rightarrow> Inl TypeError
      | Some t \<Rightarrow>
          (case cat_dim1 (unary (\<lambda>_. lit T 0 0) t) (unary (\<lambda>_. lit T 0 0) t) of
             Inl e \<Rightarrow> Inl e
           | Inr zeros \<Rightarrow>
               (case (case cv of None \<Rightarrow> Inr zeros | Some c \<Rightarrow> c zeros) of
                  Inl e \<Rightarrow> Inl e
                | Inr mean_and_logsd \<Rightarrow>
                    if length (shape mean_and_logsd) < 2 then Inl IndexError
                    else
                      (case chunk2 (shape mean_and_logsd ! 1) of
                         [r1, r2] \<Rightarrow>
                           (case gaussian_diag X (narrow_dim1 mean_and_logsd r1)
                                   (narrow_dim1 mean_and_logsd r2) of
                              Inl e \<Rightarrow> Inl e
                            | Inr pz \<Rightarrow>
                                (case logp pz t of
                                   Inl e \<Rightarrow> Inl e
                                 | Inr lp \<Rightarrow> Inr (None, f_add T objective (f_sum T (data lp)))))
                       | _ \<Rightarrow> Inl ValueError))))"

text \<open>
  The class defines \<^verbatim>\<open>backward_and_jacobian\<close>, not \<^verbatim>\<open>reverse_and_jacobian\<close>. Its
  body asserts \<^verbatim>\<open>x is None\<close> and then evaluates \<^verbatim>\<open>torch.zeros_like(x)\<close> on that
  \<^verbatim>\<open>None\<close>.
\<close>

definition GaussianPrior_backward_and_jacobian ::
  "'a tensor option \<Rightarrow> 'a \<Rightarrow> 'a result" where
  "GaussianPrior_backward_and_jacobian x objective =
     (case x of Some t \<Rightarrow> Inl AssertionError | None \<Rightarrow> Inl TypeError)"


subsection \<open>Coupling layers\<close>

text \<open>
  \<^verbatim>\<open>z1, z2 = torch.chunk(x, 2, dim=1)\<close> gives two views of \<open>x\<close>, and \<^verbatim>\<open>z2 += ...\<close>,
  \<^verbatim>\<open>z2 *= ...\<close> write through the second one. The state of a call is the caller's
  array: each in-place statement gives its next contents, \<open>z1\<close> and \<open>z2\<close> are read from
  the current contents, and the call returns, with the pair of the source, the
  contents of \<open>x\<close> when it ends.
\<close>

type_synonym 'a result_and_input = "error + ('a tensor option \<times> 'a) \<times> 'a tensor"

definition AdditiveCoupling_forward ::
  "'a torch \<Rightarrow> 'a module \<Rightarrow> 'a tensor option \<Rightarrow> 'a \<Rightarrow> 'a result_and_input" where
  "AdditiveCoupling_forward T nn x objective =
     (case x of
        None \<Rightarrow> Inl TypeError
      | Some x0 \<Rightarrow>
          if length (shape x0) < 2 then Inl IndexError
          else
            (case chunk2 (shape x0 ! 1) of
               [r1, r2] \<Rightarrow>
                 (case nn (narrow_dim1 x0 r1) of
                    Inl e \<Rightarrow> Inl e
                  | Inr t \<Rightarrow>
                      (case in_place (f_add T) (narrow_dim1 x0 r2) t of
                         Inl e \<Rightarrow> Inl e
                       | Inr vs \<Rightarrow>
                           (let x1 = write_dim1 x0 r2 vs
                            in case cat_dim1 (narrow_dim1 x1 r1) (narrow_dim1 x1 r2) of
                                 Inl e \<Rightarrow> Inl e
                               | Inr y \<Rightarrow> Inr ((Some y, objective), x1))))
             | _ \<Rightarrow> Inl ValueError))"

definition AdditiveCoupling_reverse ::
  "'a torch \<Rightarrow> 'a module \<Rightarrow> 'a tensor option \<Rightarrow> 'a \<Rightarrow> 'a result_and_input" where
  "AdditiveCoupling_reverse T nn x objective =
     (case x of
        None \<Rightarrow> Inl TypeError
      | Some x0 \<Rightarrow>
          if length (shape x0) < 2 then Inl IndexError
          else
            (case chunk2 (shape x0 ! 1) of
               [r1, r2] \<Rightarrow>
                 (case nn (narrow_dim1 x0 r1) of
                    Inl e \<Rightarrow> Inl e
                  | Inr t \<Rightarrow>
                      (case in_place (f_sub T) (narrow_dim1 x0 r2) t of
                         Inl e \<Rightarrow> Inl e
                       | Inr vs \<Rightarrow>
                           (let x1 = write_dim1 x0 r2 vs
                            in case cat_dim1 (narrow_dim1 x1 r1) (narrow_dim1 x1 r2) of
                                 Inl e \<Rightarrow> Inl e
                               | Inr y \<Rightarrow> Inr ((Some y, objective), x1))))
             | _ \<Rightarrow> Inl ValueError))"

text \<open>
  \<^verbatim>\<open>shift = h[:, 0::2]\<close> and \<^verbatim>\<open>scale = F.sigmoid(h[:, 1::2] + 2.)\<close> of the affine
  coupling, from \<open>h = NN(z1)\<close>.
\<close>

definition shift_and_scale :: "'a torch \<Rightarrow> 'a tensor \<Rightarrow> error + 'a tensor \<times> 'a tensor" where
  "shift_and_scale T h =
     (case slice_dim1 h 0 2 of
        Inl e \<Rightarrow> Inl e
      | Inr shift \<Rightarrow>
          (case slice_dim1 h 1 2 of
             Inl e \<Rightarrow> Inl e
           | Inr pre \<Rightarrow>
               Inr (shift, unary (f_sigmoid T) (unary (\<lambda>v. f_add T v (lit T 2 0)) pre))))"

definition AffineCoupling_forward ::
  "'a torch \<Rightarrow> 'a module \<Rightarrow> 'a tensor option \<Rightarrow> 'a \<Rightarrow> 'a result_and_input" where
  "AffineCoupling_forward T nn x objective =
     (case x of
        None \<Rightarrow> Inl TypeError
      | Some x0 \<Rightarrow>
          if length (shape x0) < 2 then Inl IndexError
          else
            (case chunk2 (shape x0 ! 1) of
               [r1, r2] \<Rightarrow>
                 (case nn (narrow_dim1 x0 r1) of
                    Inl e \<Rightarrow> Inl e
                  | Inr h \<Rightarrow>
                      (case shift_and_scale T h of
                         Inl e \<Rightarrow> Inl e
                       | Inr (shift, scale) \<Rightarrow>
                           (case in_place (f_add T) (narrow_dim1 x0 r2) shift of
                              Inl e \<Rightarrow> Inl e
                            | Inr vs \<Rightarrow>
                                (let x1 = write_dim1 x0 r2 vs
                                 in case in_place (f_mul T) (narrow_dim1 x1 r2) scale of
                                      Inl e \<Rightarrow> Inl e
                                    | Inr ws \<Rightarrow>
                                        (let x2 = write_dim1 x1 r2 ws;
                                             objective' =
                                               f_add T objective
                                                 (f_sum T (data (unary (f_log T) scale)))
                                         in case cat_dim1 (narrow_dim1 x2 r1) (narrow_dim1 x2 r2) of
                                              Inl e \<Rightarrow> Inl e
                                            | Inr y \<Rightarrow> Inr ((Some y, objective'), x2))))))
             | _ \<Rightarrow> Inl ValueError))"

definition AffineCoupling_reverse ::
  "'a torch \<Rightarrow> 'a module \<Rightarrow> 'a tensor option \<Rightarrow> 'a \<Rightarrow> 'a result_and_input" where
  "AffineCoupling_reverse T nn x objective =
     (case x of
        None \<Rightarrow> Inl TypeError
      | Some x0 \<Rightarrow>
          if length (shape x0) < 2 then Inl IndexError
          else
            (case chunk2 (shape x0 ! 1) of
               [r1, r2] \<Rightarrow>
                 (case nn (narrow_dim1 x0 r1) of
                    Inl e \<Rightarrow> Inl e
                  | Inr h \<Rightarrow>
                      (case shift_and_scale T h of
                         Inl e \<Rightarrow> Inl e
                       | Inr (shift, scale) \<Rightarrow>
                           (case in_place (f_div T) (narrow_dim1 x0 r2) scale of
                              Inl e \<Rightarrow> Inl e
                            | Inr vs \<Rightarrow>
                                (let x1 = write_dim1 x0 r2 vs
                                 in case in_place (f_sub T) (narrow_dim1 x1 r2) shift of
                                      Inl e \<Rightarrow> Inl e
                                    | Inr ws \<Rightarrow>
                                        (let x2 = write_dim1 x1 r2 ws;
                                             objective' =
                                               f_sub T objective
                                                 (f_sum T (data (unary (f_log T) scale)))
                                         in case cat_dim1 (narrow_dim1 x2 r1) (narrow_dim1 x2 r2) of
                                              Inl e \<Rightarrow> Inl e
                                            | Inr y \<Rightarrow> Inr ((Some y, objective'), x2))))))
             | _ \<Rightarrow> Inl ValueError))"

text \<open>The methods as the caller sees their return value.\<close>

definition returned :: "'a result_and_input \<Rightarrow> 'a result" where
  "returned r = (case r of Inl e \<Rightarrow> Inl e | Inr (v, x') \<Rightarrow> Inr v)"

definition AdditiveCoupling_forward_and_jacobian ::
  "'a torch \<Rightarrow> 'a module \<Rightarrow> 'a tensor option \<Rightarrow> 'a \<Rightarrow> 'a result" where
  "AdditiveCoupling_forward_and_jacobian T nn x objective =
     returned (AdditiveCoupling_forward T nn x objective)"

definition AdditiveCoupling_reverse_and_jacobian ::
  "'a torch \<Rightarrow> 'a module \<Rightarrow> 'a tensor option \<Rightarrow> 'a \<Rightarrow> 'a result" where
  "AdditiveCoupling_reverse_and_jacobian T nn x objective =
     returned (AdditiveCoupling_reverse T nn x objective)"

definition AffineCoupling_forward_and_jacobian ::
  "'a torch \<Rightarrow> 'a module \<Rightarrow> 'a tensor option \<Rightarrow> 'a \<Rightarrow> 'a result" where
  "AffineCoupling_forward_and_jacobian T nn x objective =
     returned (AffineCoupling_forward T nn x objective)"

definition AffineCoupling_reverse_and_jacobian ::
  "'a torch \<Rightarrow> 'a module \<Rightarrow> 'a tensor option \<Rightarrow> 'a \<Rightarrow> 'a result" where
  "AffineCoupling_reverse_and_jacobian T nn x objective =
     returned (AffineCoupling_reverse T nn x objective)"

subsection \<open>BatchNorm\<close>

text \<open>
  The statistics both methods recompute from the input viewed as \<open>(B, C, L)\<close>:
  \<^verbatim>\<open>input.sum(dim=0).sum(dim=-1)\<close> per channel, then mean, \<^verbatim>\<open>sumvar\<close> and the clamped
  variance. \<open>bs\<close> are the channels of the view, \<open>B\<close>, \<open>C\<close>, \<open>L\<close> its size.
\<close>

definition channel_sums :: "'a torch \<Rightarrow> nat \<Rightarrow> nat \<Rightarrow> 'a list list list \<Rightarrow> 'a list" where
  "channel_sums T C L bs =
     map (\<lambda>c. f_sum T (map (\<lambda>l. f_sum T (map (\<lambda>b. b ! c ! l) bs)) [0..<L])) [0..<C]"

definition batch_statistics ::
  "'a torch \<Rightarrow> 'a \<Rightarrow> 'a tensor \<Rightarrow> ('a \<times> 'a \<times> 'a) list" where
  "batch_statistics T clamp v =
     (let B = shape v ! 0; C = shape v ! 1; L = shape v ! 2;
          sum_size = lit T (int (B * L)) 0;
          input_sum = channel_sums T C L (channels v);
          input_ssum = channel_sums T C L (channels (unary (\<lambda>u. f_pow T u (lit T 2 0)) v))
      in map (\<lambda>(s, ss).
                let mean = f_div T s sum_size;
                    sumvar = f_sub T ss (f_mul T s mean);
                    var = f_clamp_min T (f_div T sumvar sum_size) clamp
                in (mean, sumvar, var))
           (zip input_sum input_ssum))"

definition BatchNorm_forward_and_jacobian ::
  "'a torch \<Rightarrow> 'a external \<Rightarrow> 'a layer \<Rightarrow> 'a tensor option \<Rightarrow> 'a \<Rightarrow> 'a result" where
  "BatchNorm_forward_and_jacobian T X self input objective =
     (case input of
        None \<Rightarrow> Inl (if training self then AttributeError else TypeError)
      | Some t \<Rightarrow>
          (case F_batch_norm X t (running_mean self) (running_var self) (training self)
                  (momentum self) (eps self) of
             Inl e \<Rightarrow> Inl e
           | Inr output \<Rightarrow>
               if length (shape t) < 2 then Inl IndexError
               else
                 (case view t [int (shape t ! 0), int (shape t ! 1), - 1] of
                    Inl e \<Rightarrow> Inl e
                  | Inr v \<Rightarrow>
                      (let log_det_jacobian =
                             map (\<lambda>(mean, sumvar, var).
                                    f_mul T
                                      (f_mul T
                                         (f_log T (f_abs T (f_pow T var (lit T (- 5) (- 1)))))
                                         (lit T (int (shape v ! 0)) 0))
                                      (lit T (int (shape v ! 2)) 0))
                               (batch_statistics T (eps self) v)
                       in Inr (Some output, f_add T objective (f_sum T log_det_jacobian))))))"

text \<open>
  \<^verbatim>\<open>BatchNorm.reverse\<close>, which is not a method of the \<^verbatim>\<open>Layer\<close> protocol. After the
  view to \<open>(B, C, L)\<close> it multiplies the input by \<^verbatim>\<open>var ** 0.5\<close> of size \<open>(C)\<close>, adds the
  mean, and then reads \<^verbatim>\<open>input.size(3)\<close> of the three-dimensional view.
\<close>

definition BatchNorm_reverse ::
  "'a torch \<Rightarrow> 'a layer \<Rightarrow> 'a tensor option \<Rightarrow> 'a \<Rightarrow> 'a result" where
  "BatchNorm_reverse T self input objective =
     (if training self then Inl AssertionError
      else
        (case input of
           None \<Rightarrow> Inl AttributeError
         | Some t \<Rightarrow>
             if length (shape t) < 2 then Inl IndexError
             else
               (case view t [int (shape t ! 0), int (shape t ! 1), - 1] of
                  Inl e \<Rightarrow> Inl e
                | Inr v \<Rightarrow>
                    (let stats = batch_statistics T (lit T 1 (- 5)) v;
                         root = mk [length stats]
                                  (map (\<lambda>(mean, sumvar, var). f_pow T var (lit T 5 (- 1))) stats);
                         means = mk [length stats] (map (\<lambda>(mean, sumvar, var). mean) stats)
                     in case binary (f_mul T) v root of
                          Inl e \<Rightarrow> Inl e
                        | Inr output \<Rightarrow>
                            (case binary (f_add T) output means of
                               Inl e \<Rightarrow> Inl e
                             | Inr output' \<Rightarrow> Inl IndexError)))))"

section \<open>LayerList and the call of a method on a layer object\<close>

text \<open>
  \<open>forward_and_jacobian l\<close> and \<open>reverse_and_jacobian l\<close> are the calls
  \<^verbatim>\<open>l.forward_and_jacobian(x, objective)\<close> and \<^verbatim>\<open>l.reverse_and_jacobian(x, objective)\<close>:
  the method of the object's class, or the one it inherits. \<^verbatim>\<open>GaussianPrior\<close> and
  \<^verbatim>\<open>BatchNorm\<close> define no \<^verbatim>\<open>reverse_and_jacobian\<close> and inherit the one of
  \<^verbatim>\<open>Layer\<close>. The loops of \<^verbatim>\<open>LayerList\<close> are the functions on lists.
\<close>

fun forward_and_jacobian ::
      "'a torch \<Rightarrow> 'a linalg \<Rightarrow> 'a external \<Rightarrow> 'a layer \<Rightarrow> 'a tensor option \<Rightarrow> 'a \<Rightarrow> 'a result"
  and LayerList_forward ::
      "'a torch \<Rightarrow> 'a linalg \<Rightarrow> 'a external \<Rightarrow> 'a layer list \<Rightarrow> 'a tensor option \<Rightarrow> 'a \<Rightarrow> 'a result"
  where
  "forward_and_jacobian T L X (Shuffle idx ridx) x objective =
     Shuffle_forward_and_jacobian idx x objective"
| "forward_and_jacobian T L X (Invertible1x1Conv w) x objective =
     Invertible1x1Conv_forward_and_jacobian T L w x objective"
| "forward_and_jacobian T L X (Squeeze f sh) x objective =
     Squeeze_forward_and_jacobian f x objective"
| "forward_and_jacobian T L X (Split f sh cz) x objective =
     Split_forward_and_jacobian T X f cz x objective"
| "forward_and_jacobian T L X (GaussianPrior cv) x objective =
     GaussianPrior_forward_and_jacobian T X cv x objective"
| "forward_and_jacobian T L X (AdditiveCoupling nn) x objective =
     AdditiveCoupling_forward_and_jacobian T nn x objective"
| "forward_and_jacobian T L X (AffineCoupling nn) x objective =
     AffineCoupling_forward_and_jacobian T nn x objective"
| "forward_and_jacobian T L X (BatchNorm tr ep mo rm rv) x objective =
     BatchNorm_forward_and_jacobian T X (BatchNorm tr ep mo rm rv) x objective"
| "forward_and_jacobian T L X (LayerList ls) x objective =
     LayerList_forward T L X ls x objective"
| "LayerList_forward T L X [] x objective = Inr (x, objective)"
| "LayerList_forward T L X (l # ls) x objective =
     (case forward_and_jacobian T L X l x objective of
        Inl e \<Rightarrow> Inl e
      | Inr (x', objective') \<Rightarrow> LayerList_forward T L X ls x' objective')"

fun reverse_and_jacobian ::
      "'a torch \<Rightarrow> 'a linalg \<Rightarrow> 'a external \<Rightarrow> 'a layer \<Rightarrow> 'a tensor option \<Rightarrow> 'a \<Rightarrow> 'a result"
  and LayerList_reverse ::
      "'a torch \<Rightarrow> 'a linalg \<Rightarrow> 'a external \<Rightarrow> 'a layer list \<Rightarrow> 'a tensor option \<Rightarrow> 'a \<Rightarrow> 'a result"
  where
  "reverse_and_jacobian T L X (Shuffle idx ridx) x objective =
     Shuffle_reverse_and_jacobian ridx x objective"
| "reverse_and_jacobian T L X (Invertible1x1Conv w) x objective =
     Invertible1x1Conv_reverse_and_jacobian T L w x objective"
| "reverse_and_jacobian T L X (Squeeze f sh) x objective =
     Squeeze_reverse_and_jacobian f x objective"
| "reverse_and_jacobian T L X (Split f sh cz) x objective =
     Split_reverse_and_jacobian x objective"
| "reverse_and_jacobian T L X (GaussianPrior cv) x objective =
     Layer_reverse_and_jacobian x objective"
| "reverse_and_jacobian T L X (AdditiveCoupling nn) x objective =
     AdditiveCoupling_reverse_and_jacobian T nn x objective"
| "reverse_and_jacobian T L X (AffineCoupling nn) x objective =
     AffineCoupling_reverse_and_jacobian T nn x objective"
| "reverse_and_jacobian T L X (BatchNorm tr ep mo rm rv) x objective =
     Layer_reverse_and_jacobian x objective"
| "reverse_and_jacobian T L X (LayerList ls) x objective =
     LayerList_reverse T L X ls x objective"
| "LayerList_reverse T L X [] x objective = Inr (x, objective)"
| "LayerList_reverse T L X (l # ls) x objective =
     (case LayerList_reverse T L X ls x objective of
        Inl e \<Rightarrow> Inl e
      | Inr (x', objective') \<Rightarrow> reverse_and_jacobian T L X l x' objective')"

section \<open>RevNet and Codec\<close>

fun RevNet_steps ::
  "'a torch \<Rightarrow> ('a, 'g) ambient \<Rightarrow> 'g \<Rightarrow> nat \<Rightarrow> args \<Rightarrow> nat \<Rightarrow> error + 'a layer list \<times> 'g" where
  "RevNet_steps T A g c a 0 = Inr ([], g)"
| "RevNet_steps T A g c a (Suc k) =
     (case RevNetStep_init T A g c a of
        Inl e \<Rightarrow> Inl e
      | Inr (l, g') \<Rightarrow>
          (case RevNet_steps T A g' c a k of
             Inl e \<Rightarrow> Inl e
           | Inr (ls, g'') \<Rightarrow> Inr (l # ls, g'')))"

definition RevNet_init ::
  "'a torch \<Rightarrow> ('a, 'g) ambient \<Rightarrow> 'g \<Rightarrow> nat list \<Rightarrow> args \<Rightarrow> error + 'a layer \<times> 'g" where
  "RevNet_init T A g sh a =
     (case sh of
        [bs, c, h, w] \<Rightarrow>
          (case RevNet_steps T A g c a (args_depth a) of
             Inl e \<Rightarrow> Inl e
           | Inr (ls, g') \<Rightarrow> Inr (LayerList ls, g'))
      | _ \<Rightarrow> Inl ValueError)"

text \<open>
  The loop \<^verbatim>\<open>for i in range(args.n_levels)\<close> of \<^verbatim>\<open>Codec.__init__\<close>, on the layers
  built so far, the current \<^verbatim>\<open>input_shape\<close> and the generator; \<open>k\<close> counts the
  iterations left, so \<^verbatim>\<open>i < args.n_levels - 1\<close> is \<open>0 < k\<close> after this one.
\<close>

fun Codec_levels ::
  "'a torch \<Rightarrow> ('a, 'g) ambient \<Rightarrow> args \<Rightarrow> nat \<Rightarrow> 'a layer list \<times> nat list \<times> 'g \<Rightarrow>
     error + 'a layer list \<times> nat list \<times> 'g" where
  "Codec_levels T A a 0 st = Inr st"
| "Codec_levels T A a (Suc k) (ls, sh, g) =
     (if ls = [] then Inl IndexError
      else
        (case output_shape (last ls) of
           Inl e \<Rightarrow> Inl e
         | Inr sh' \<Rightarrow>
             (case RevNet_init T A g sh' a of
                Inl e \<Rightarrow> Inl e
              | Inr (rn, g') \<Rightarrow>
                  if 0 < k then
                    (case Split_init A sh' of
                       Inl e \<Rightarrow> Inl e
                     | Inr sp \<Rightarrow> Codec_levels T A a k (ls @ [rn, sp], sh', g'))
                  else Codec_levels T A a k (ls @ [rn], sh', g'))))"

definition Codec_init ::
  "'a torch \<Rightarrow> ('a, 'g) ambient \<Rightarrow> 'g \<Rightarrow> nat list \<Rightarrow> args \<Rightarrow> error + 'a layer \<times> 'g" where
  "Codec_init T A g sh a =
     (case Squeeze_init sh 2 of
        Inl e \<Rightarrow> Inl e
      | Inr sq \<Rightarrow>
          (case Codec_levels T A a (args_n_levels a) ([sq], sh, g) of
             Inl e \<Rightarrow> Inl e
           | Inr (ls, sh', g') \<Rightarrow>
               (case GaussianPrior_init A sh' a of
                  Inl e \<Rightarrow> Inl e
                | Inr gp \<Rightarrow> Inr (LayerList (ls @ [gp]), g'))))"


section \<open>Predicates of the statements\<close>

text \<open>A tensor holds as many elements as its size says.\<close>

definition consistent :: "'a tensor \<Rightarrow> bool" where
  "consistent t \<longleftrightarrow> length (data t) = prod_list (shape t)"

text \<open>\<open>b\<close> batch entries of \<open>c\<close> channels of \<open>m\<close> elements each.\<close>

definition chan_shaped :: "nat \<Rightarrow> nat \<Rightarrow> nat \<Rightarrow> 'a list list list \<Rightarrow> bool" where
  "chan_shaped b c m css \<longleftrightarrow>
     length css = b \<and>
     list_all (\<lambda>cs. length cs = c \<and> list_all (\<lambda>ch. length ch = m) cs) css"

text \<open>Two index lists over \<open>n\<close> channels that are permutations inverse to each other.\<close>

definition inverse_pair :: "nat \<Rightarrow> nat list \<Rightarrow> nat list \<Rightarrow> bool" where
  "inverse_pair n idx ridx \<longleftrightarrow>
     length idx = n \<and> length ridx = n \<and>
     list_all (\<lambda>i. idx ! i < n \<and> ridx ! i < n \<and> idx ! (ridx ! i) = i \<and> ridx ! (idx ! i) = i)
       [0..<n]"

text \<open>A contiguous array with \<open>n\<close> channels (dimension 1).\<close>

definition array_of :: "nat \<Rightarrow> 'a tensor \<Rightarrow> bool" where
  "array_of n x \<longleftrightarrow> well_formed x \<and> 2 \<le> length (shape x) \<and> shape x ! 1 = n"

text \<open>
  The round trip of a layer on the arrays \<open>P\<close>: the forward call returns an array of
  \<open>P\<close>, and the reverse call on what it returned gives back the input array and the
  input objective, both exactly.
\<close>

definition round_trips ::
  "'a torch \<Rightarrow> 'a linalg \<Rightarrow> 'a external \<Rightarrow> ('a tensor \<Rightarrow> bool) \<Rightarrow> 'a layer \<Rightarrow> bool" where
  "round_trips T L X P l \<longleftrightarrow>
     (\<forall>x objective. P x \<longrightarrow>
        (\<exists>y objective'.
           forward_and_jacobian T L X l (Some x) objective = Inr (Some y, objective') \<and> P y \<and>
           reverse_and_jacobian T L X l (Some y) objective' = Inr (Some x, objective)))"

text \<open>A module of \<^verbatim>\<open>layers.py\<close> returns tensors, each with as many elements as its size.\<close>

definition returns_tensors :: "'a module \<Rightarrow> bool" where
  "returns_tensors nn \<longleftrightarrow> (\<forall>z t. nn z = Inr t \<longrightarrow> consistent t)"

text \<open>
  The element of a tensor at batch entry \<open>i\<close>, channel \<open>j\<close> and position \<open>e\<close> within the
  channel, by its row-major index.
\<close>

definition elem :: "'a tensor \<Rightarrow> nat \<Rightarrow> nat \<Rightarrow> nat \<Rightarrow> 'a" where
  "elem t i j e = data t ! ((i * (shape t ! 1) + j) * prod_list (drop 2 (shape t)) + e)"

text \<open>
  The scale of the affine coupling at an element, from \<open>h = NN(z1)\<close>: the sigmoid of
  the odd channel \<open>2j + 1\<close> of \<open>h\<close> plus 2; and \<^verbatim>\<open>sum(log(scale))\<close> over all elements.
\<close>

definition scale_at :: "'a torch \<Rightarrow> 'a tensor \<Rightarrow> nat \<Rightarrow> nat \<Rightarrow> nat \<Rightarrow> 'a" where
  "scale_at T h i j e = f_sigmoid T (f_add T (elem h i (2 * j + 1) e) (lit T 2 0))"

definition log_scale_sum :: "'a torch \<Rightarrow> 'a tensor \<Rightarrow> 'a" where
  "log_scale_sum T h =
     f_sum T
       (concat (map (\<lambda>i. concat (map (\<lambda>j. map (\<lambda>e. f_log T (scale_at T h i j e))
                                             [0..<prod_list (drop 2 (shape h))])
                                    [0..<shape h ! 1 div 2]))
                  [0..<shape h ! 0]))"

text \<open>\<^verbatim>\<open>log(abs(d)) * height * width\<close> for the height and width of \<open>x\<close>.\<close>

definition log_abs_det_times :: "'a torch \<Rightarrow> 'a \<Rightarrow> 'a tensor \<Rightarrow> 'a" where
  "log_abs_det_times T d x =
     f_mul T
       (f_mul T (f_log T (f_abs T d)) (lit T (int (shape x ! (length (shape x) - 2))) 0))
       (lit T (int (shape x ! (length (shape x) - 1))) 0)"

section \<open>Example objects\<close>

text \<open>
  Collaborators for the concrete instances below: the kernels over the real
  numbers, a module that returns a constant with the requested number of channels,
  constructors that build the module returning zeros, and a generator whose
  \<open>g\<close>-th shuffle rotates the list by \<open>g\<close>.
\<close>

definition real_torch :: "real torch" where
  "real_torch =
     \<lparr>lit = (\<lambda>m e. if 0 \<le> e then of_int m * 10 ^ nat e else of_int m / 10 ^ nat (- e)),
      f_add = (+), f_sub = (-), f_mul = (*), f_div = (/), f_pow = (powr), f_clamp_min = max,
      f_log = ln, f_abs = abs, f_sigmoid = (\<lambda>v. 1 / (1 + exp (- v))), f_sum = sum_list\<rparr>"

definition constant_module :: "'a \<Rightarrow> nat \<Rightarrow> nat \<Rightarrow> 'a module" where
  "constant_module v cin cout t =
     (if length (shape t) = 4 \<and> shape t ! 1 = cin
      then Inr (mk ((shape t)[1 := cout]) (replicate (prod_list ((shape t)[1 := cout])) v))
      else Inl RuntimeError)"

text \<open>
  The linear algebra at two channels, over the real numbers: determinant and
  inverse of a 2 x 2 matrix, and the convolution of an array of two channels with
  a weight of size \<open>(2, 2, 1, 1)\<close>. Other sizes are outside the examples and raise.
\<close>

definition linalg_2 :: "real linalg" where
  "linalg_2 =
     \<lparr>torch_det = (\<lambda>t.
        if shape t = [2, 2] \<and> length (data t) = 4
        then Inr (data t ! 0 * data t ! 3 - data t ! 1 * data t ! 2)
        else Inl RuntimeError),
      torch_inverse = (\<lambda>t.
        if shape t = [2, 2] \<and> length (data t) = 4 \<and>
           data t ! 0 * data t ! 3 - data t ! 1 * data t ! 2 \<noteq> 0
        then (let det = data t ! 0 * data t ! 3 - data t ! 1 * data t ! 2
              in Inr (mk [2, 2] [data t ! 3 / det, - (data t ! 1) / det,
                                 - (data t ! 2) / det, data t ! 0 / det]))
        else Inl RuntimeError),
      F_conv2d = (\<lambda>x w.
        if length (shape x) = 4 \<and> shape x ! 1 = 2 \<and> shape w = [2, 2, 1, 1] \<and> length (data w) = 4
        then Inr (mk (shape x)
                    (unchannels
                       (map (\<lambda>cs. [map2 (\<lambda>u v. data w ! 0 * u + data w ! 1 * v) (cs ! 0) (cs ! 1),
                                   map2 (\<lambda>u v. data w ! 2 * u + data w ! 3 * v) (cs ! 0) (cs ! 1)])
                          (channels x))))
        else Inl RuntimeError)\<rparr>"

definition zero_ambient :: "'a torch \<Rightarrow> ('a, nat) ambient" where
  "zero_ambient T =
     \<lparr>NN_new = (\<lambda>cin cout.
                  constant_module (lit T 0 0) cin (case cout of None \<Rightarrow> cin | Some c \<Rightarrow> c)),
      Conv2dZeroInit_new = constant_module (lit T 0 0),
      np_random_shuffle = (\<lambda>g xs. (rotate g xs, Suc g))\<rparr>"

text \<open>A configuration with one step per scale and two scales.\<close>

definition example_args :: "string option \<Rightarrow> string \<Rightarrow> string \<Rightarrow> args" where
  "example_args n p c =
     \<lparr>args_norm = n, args_permutation = p, args_coupling = c,
      args_depth = 1, args_n_levels = 2, args_learntop = False\<rparr>"

section \<open>Construction\<close>

text \<open>
  C9. No \<^verbatim>\<open>Reverse\<close> layer is ever constructed: for every channel count the
  constructor raises \<^verbatim>\<open>TypeError\<close> at its first statement, the call of
  \<^verbatim>\<open>Shuffle.__init__\<close> without the channel count. The reversal permutation the
  claim describes is never stored.
\<close>

theorem Reverse_init_raises: "Reverse_init A g num_channels = Inl TypeError"
  by (simp add: Reverse_init_def Shuffle_init_def)

lemma norm_layers_kinds:
  "norm_layers T n a = Inr ns \<Longrightarrow>
     map kind_of ns = (if args_norm a = Some ''batchnorm'' then [Normalization] else [])"
  by (auto simp: norm_layers_def ActNorm_init_def BatchNorm_init_def split: if_splits)

lemma permutation_layers_kinds:
  "permutation_layers A g n a = Inr (ps, g') \<Longrightarrow> map kind_of ps = [Permutation]"
  by (auto simp: permutation_layers_def Reverse_init_def Shuffle_init_def
      Invertible1x1Conv_init_def Layer_init_def Conv2d_init_def Module_init_def Let_def
      split: if_splits sum.splits prod.splits)

lemma permutation_layers_unrecognized:
  "args_permutation a \<notin> {''reverse'', ''shuffle'', ''conv''} \<Longrightarrow>
     permutation_layers A g n a = Inl ValueError"
  by (simp add: permutation_layers_def)

lemma coupling_layers_kinds:
  "coupling_layers A n a = Inr cs \<Longrightarrow> map kind_of cs = [Coupling]"
  by (auto simp: coupling_layers_def AdditiveCoupling_init_def AffineCoupling_init_def
      split: if_splits sum.splits)

lemma coupling_layers_unrecognized:
  "args_coupling a \<notin> {''additive'', ''affine''} \<Longrightarrow> coupling_layers A n a = Inl ValueError"
  by (simp add: coupling_layers_def)

text \<open>
  C7. Constructing a \<^verbatim>\<open>RevNetStep\<close> with a permutation other than
  reverse/shuffle/conv, or a coupling other than additive/affine, raises and
  returns no step. Every step that is constructed holds its layers in the order
  normalization (present exactly for batchnorm), permutation, coupling.
\<close>

theorem RevNetStep_init_configuration:
  "(args_permutation a \<notin> {''reverse'', ''shuffle'', ''conv''} \<or>
    args_coupling a \<notin> {''additive'', ''affine''} \<longrightarrow>
      (\<exists>e. RevNetStep_init T A g n a = Inl e)) \<and>
   (\<forall>step g'. RevNetStep_init T A g n a = Inr (step, g') \<longrightarrow>
      map kind_of (layers step) =
        (if args_norm a = Some ''batchnorm'' then [Normalization] else []) @
        [Permutation, Coupling])"
proof (intro conjI impI allI)
  assume bad: "args_permutation a \<notin> {''reverse'', ''shuffle'', ''conv''} \<or>
    args_coupling a \<notin> {''additive'', ''affine''}"
  show "\<exists>e. RevNetStep_init T A g n a = Inl e"
  proof (cases "norm_layers T n a")
    case (Inl e)
    then show ?thesis by (simp add: RevNetStep_init_def)
  next
    case ns: (Inr ns)
    show ?thesis
    proof (cases "permutation_layers A g n a")
      case (Inl e)
      with ns show ?thesis by (simp add: RevNetStep_init_def)
    next
      case ps: (Inr p)
      then have "args_permutation a \<in> {''reverse'', ''shuffle'', ''conv''}"
        using permutation_layers_unrecognized [of a A g n] by auto
      with bad have "coupling_layers A n a = Inl ValueError"
        using coupling_layers_unrecognized [of a A n] by blast
      with ns ps show ?thesis by (simp add: RevNetStep_init_def split: prod.splits)
    qed
  qed
next
  fix step g'
  assume ok: "RevNetStep_init T A g n a = Inr (step, g')"
  then obtain ns ps cs where ns: "norm_layers T n a = Inr ns"
    and ps: "permutation_layers A g n a = Inr (ps, g')"
    and cs: "coupling_layers A n a = Inr cs"
    and step: "step = LayerList (ns @ ps @ cs)"
    by (auto simp: RevNetStep_init_def split: sum.splits prod.splits)
  show "map kind_of (layers step) =
        (if args_norm a = Some ''batchnorm'' then [Normalization] else []) @
        [Permutation, Coupling]"
    using norm_layers_kinds [OF ns] permutation_layers_kinds [OF ps] coupling_layers_kinds [OF cs]
    by (simp add: step)
qed

lemma RevNetStep_init_batchnorm_shuffle_affine:
  "\<exists>idx r. RevNetStep_init T (zero_ambient T) 0 4
              (example_args (Some ''batchnorm'') ''shuffle'' ''affine'') =
            Inr (LayerList [BatchNorm_init T 4, Shuffle idx r,
                            AffineCoupling_init (zero_ambient T) 4], 1)"
  by (simp add: RevNetStep_init_def example_args_def norm_layers_def permutation_layers_def
      coupling_layers_def Shuffle_init_def zero_ambient_def Layer_init_def Module_init_def
      upt_rec [of _ "numeral _"] upt_rec [of _ "Suc _"])

text \<open>
  The instance of C7 at four channels: the permutation \<^verbatim>\<open>'rotate'\<close> is refused, and
  batchnorm/shuffle/affine builds a step of three layers in the stated order.
\<close>

theorem RevNetStep_init_configuration_witness:
  "\<forall>T :: real torch.
     (\<exists>e. RevNetStep_init T (zero_ambient T) 0 4 (example_args None ''rotate'' ''affine'') = Inl e) \<and>
     (\<exists>step g'. RevNetStep_init T (zero_ambient T) 0 4
                  (example_args (Some ''batchnorm'') ''shuffle'' ''affine'') = Inr (step, g') \<and>
        map kind_of (layers step) = [Normalization, Permutation, Coupling])"
proof (intro allI conjI)
  fix T :: "real torch"
  show "\<exists>e. RevNetStep_init T (zero_ambient T) 0 4 (example_args None ''rotate'' ''affine'') = Inl e"
    using RevNetStep_init_configuration
      [of "example_args None ''rotate'' ''affine''" T "zero_ambient T" 0 4]
    by (simp add: example_args_def)
  obtain idx r where
    "RevNetStep_init T (zero_ambient T) 0 4 (example_args (Some ''batchnorm'') ''shuffle'' ''affine'') =
       Inr (LayerList [BatchNorm_init T 4, Shuffle idx r, AffineCoupling_init (zero_ambient T) 4], 1)"
    using RevNetStep_init_batchnorm_shuffle_affine by blast
  then show "\<exists>step g'. RevNetStep_init T (zero_ambient T) 0 4
                  (example_args (Some ''batchnorm'') ''shuffle'' ''affine'') = Inr (step, g') \<and>
        map kind_of (layers step) = [Normalization, Permutation, Coupling]"
    using RevNetStep_init_configuration
      [of "example_args (Some ''batchnorm'') ''shuffle'' ''affine''" T "zero_ambient T" 0 4]
    by (simp add: example_args_def)
qed

section \<open>Reverse calls that raise\<close>

text \<open>
  C8. Through the \<^verbatim>\<open>Layer\<close> protocol the reverse call on a \<^verbatim>\<open>BatchNorm\<close> layer
  raises \<^verbatim>\<open>NotImplementedError\<close> in training mode and outside it: the class names
  its method \<^verbatim>\<open>reverse\<close>, so \<^verbatim>\<open>reverse_and_jacobian\<close> is the one of \<^verbatim>\<open>Layer\<close>. The
  method \<^verbatim>\<open>reverse\<close> itself raises on every input and in every mode, and never
  returns a reconstructed array.
\<close>

theorem BatchNorm_reverse_raises:
  "reverse_and_jacobian T L X (BatchNorm tr ep mo rm rv) y objective = Inl NotImplementedError \<and>
   (\<exists>e. BatchNorm_reverse T (BatchNorm tr ep mo rm rv) y objective = Inl e)"
  by (simp add: Layer_reverse_and_jacobian_def BatchNorm_reverse_def Let_def
      split: option.splits sum.splits)

text \<open>
  C6. The reverse call on a \<^verbatim>\<open>GaussianPrior\<close> with \<^verbatim>\<open>None\<close> as input raises
  \<^verbatim>\<open>NotImplementedError\<close> and draws no sample: the class defines
  \<^verbatim>\<open>backward_and_jacobian\<close>, not \<^verbatim>\<open>reverse_and_jacobian\<close>. Called by its own name
  with \<^verbatim>\<open>None\<close>, that method raises \<^verbatim>\<open>TypeError\<close>.
\<close>

theorem GaussianPrior_reverse_raises:
  "reverse_and_jacobian T L X (GaussianPrior cv) None objective = Inl NotImplementedError \<and>
   GaussianPrior_backward_and_jacobian None objective = Inl TypeError"
  by (simp add: Layer_reverse_and_jacobian_def GaussianPrior_backward_and_jacobian_def)

text \<open>
  C5. \<^verbatim>\<open>Split.reverse_and_jacobian\<close> raises \<^verbatim>\<open>NameError\<close> on every input, before it
  un-squeezes, samples or touches the objective.
\<close>

theorem Split_reverse_raises:
  "reverse_and_jacobian T L X (Split f sh cz) x objective = Inl NameError"
  by (simp add: Split_reverse_and_jacobian_def)


section \<open>Squeeze\<close>

lemma shape_permute [simp]: "shape (permute p t) = map (nth (shape t)) p"
  and strides_permute [simp]: "strides (permute p t) = map (nth (strides t)) p"
  by (simp_all add: permute_def)

lemma shape_mk [simp]: "shape (mk sh xs) = sh"
  and strides_mk [simp]: "strides (mk sh xs) = contiguous_strides sh"
  and data_mk [simp]: "data (mk sh xs) = xs"
  by (simp_all add: mk_def)

lemma upt_4: "[0..<4] = [0, 1, 2, 3]"
  by (simp add: upt_rec [of _ "numeral _"] upt_rec [of _ "Suc _"])

lemma squeeze_bchw_2x2:
  "squeeze_bchw 2 (mk [1, 1, 2, 2] [a, b, c, d]) =
     Inr \<lparr>shape = [1, 4, 1, 1], strides = [4, 1, 4, 4], data = [a, c, b, d]\<rparr>"
  by (simp add: squeeze_bchw_def transpose_dims_def upt_4 contiguous_def is_contiguous_def
      reshape_def infer_size_def compute_stride_def permute_def mk_def Let_def
      upt_rec [of _ "numeral _"] upt_rec [of _ "Suc _"])

lemma unsqueeze_bchw_2x2:
  "unsqueeze_bchw 2 \<lparr>shape = [1, 4, 1, 1], strides = [4, 1, 4, 4], data = [a, c, b, d]\<rparr> =
     Inr \<lparr>shape = [2, 1, 2, 1], strides = [2, 4, 1, 2], data = [a, c, b, d]\<rparr>"
  by (simp add: unsqueeze_bchw_def transpose_dims_def upt_4 contiguous_def is_contiguous_def
      view_def infer_size_def compute_stride_def permute_def mk_def Let_def
      upt_rec [of _ "numeral _"] upt_rec [of _ "Suc _"])

lemma squeeze_bchw_2_4_8_8:
  "\<exists>y. squeeze_bchw 2 (mk [2, 4, 8, 8] xs) = Inr y \<and> shape y = [2, 16, 4, 4] \<and>
       unsqueeze_bchw 2 y = Inl RuntimeError"
  by (simp add: squeeze_bchw_def unsqueeze_bchw_def transpose_dims_def upt_4 contiguous_def
      is_contiguous_def reshape_def view_def infer_size_def compute_stride_def Let_def)

lemma Squeeze_forward_Inr:
  "length (shape t) = 4 \<Longrightarrow> squeeze_bchw f t = Inr y \<Longrightarrow>
     Squeeze_forward_and_jacobian f (Some t) objective = Inr (Some y, objective)"
  by (simp add: Squeeze_forward_and_jacobian_def)

lemma Squeeze_reverse_Inr:
  "length (shape t) = 4 \<Longrightarrow> unsqueeze_bchw f t = Inr y \<Longrightarrow>
     Squeeze_reverse_and_jacobian f (Some t) objective = Inr (Some y, objective)"
  by (simp add: Squeeze_reverse_and_jacobian_def)

text \<open>
  C2. The round trip through \<^verbatim>\<open>Squeeze\<close> does not return the input. On every
  array of size \<open>(2, 4, 8, 8)\<close> the forward call gives size \<open>(2, 16, 4, 4)\<close>, as the
  claim says, and the reverse call on that result raises \<^verbatim>\<open>RuntimeError\<close>: its
  second \<^verbatim>\<open>view\<close> is taken of a permuted tensor. On size \<open>(1, 1, 2, 2)\<close> both
  views exist and the reverse call returns size \<open>(2, 1, 2, 1)\<close>, because the
  requested height is \<^verbatim>\<open>h * w\<close> where the inverse needs \<^verbatim>\<open>h * factor\<close>.
\<close>

theorem Squeeze_round_trip_fails:
  "(\<exists>y. Squeeze_forward_and_jacobian 2 (Some (mk [2, 4, 8, 8] xs)) objective =
           Inr (Some y, objective) \<and>
         shape y = [2, 16, 4, 4] \<and>
         Squeeze_reverse_and_jacobian 2 (Some y) objective = Inl RuntimeError) \<and>
   (\<exists>y z. Squeeze_forward_and_jacobian 2 (Some (mk [1, 1, 2, 2] [a, b, c, d])) objective =
             Inr (Some y, objective) \<and>
           Squeeze_reverse_and_jacobian 2 (Some y) objective = Inr (Some z, objective) \<and>
           shape z = [2, 1, 2, 1])"
proof
  obtain y where y: "squeeze_bchw 2 (mk [2, 4, 8, 8] xs) = Inr y" "shape y = [2, 16, 4, 4]"
    "unsqueeze_bchw 2 y = Inl RuntimeError"
    using squeeze_bchw_2_4_8_8 by blast
  then show "\<exists>y. Squeeze_forward_and_jacobian 2 (Some (mk [2, 4, 8, 8] xs)) objective =
           Inr (Some y, objective) \<and>
         shape y = [2, 16, 4, 4] \<and>
         Squeeze_reverse_and_jacobian 2 (Some y) objective = Inl RuntimeError"
    by (simp add: Squeeze_forward_and_jacobian_def Squeeze_reverse_and_jacobian_def)
next
  have fwd: "Squeeze_forward_and_jacobian 2 (Some (mk [1, 1, 2, 2] [a, b, c, d])) objective =
      Inr (Some \<lparr>shape = [1, 4, 1, 1], strides = [4, 1, 4, 4], data = [a, c, b, d]\<rparr>, objective)"
    by (rule Squeeze_forward_Inr [OF _ squeeze_bchw_2x2]) simp
  have bwd: "Squeeze_reverse_and_jacobian 2
        (Some \<lparr>shape = [1, 4, 1, 1], strides = [4, 1, 4, 4], data = [a, c, b, d]\<rparr>) objective =
      Inr (Some \<lparr>shape = [2, 1, 2, 1], strides = [2, 4, 1, 2], data = [a, c, b, d]\<rparr>, objective)"
    by (rule Squeeze_reverse_Inr [OF _ unsqueeze_bchw_2x2]) simp
  show "\<exists>y z. Squeeze_forward_and_jacobian 2 (Some (mk [1, 1, 2, 2] [a, b, c, d])) objective =
             Inr (Some y, objective) \<and>
           Squeeze_reverse_and_jacobian 2 (Some y) objective = Inr (Some z, objective) \<and>
           shape z = [2, 1, 2, 1]"
    by (rule exI, rule exI, intro conjI, rule fwd, rule bwd) simp
qed


section \<open>Channels of a tensor\<close>


lemma length_blocks [simp]: "length (blocks k n xs) = k"
  by (simp add: blocks_def)

lemma nth_blocks: "i < k \<Longrightarrow> blocks k n xs ! i = take n (drop (i * n) xs)"
  by (simp add: blocks_def)

lemma blocks_Suc: "blocks (Suc k) n xs = take n xs # blocks k n (drop n xs)"
proof -
  have "map (\<lambda>i. take n (drop (i * n) xs)) [0..<Suc k] =
        take n xs # map (\<lambda>i. take n (drop (Suc i * n) xs)) [0..<k]"
    by (simp add: upt_conv_Cons map_Suc_upt [symmetric] del: upt_Suc)
  then show ?thesis by (simp add: blocks_def add.commute)
qed

lemma blocks_0 [simp]: "blocks 0 n xs = []"
  by (simp add: blocks_def)

lemma concat_blocks: "length xs = k * n \<Longrightarrow> concat (blocks k n xs) = xs"
proof (induction k arbitrary: xs)
  case 0
  then show ?case by simp
next
  case (Suc k)
  then have "length (drop n xs) = k * n" by simp
  with Suc.IH have "concat (blocks k n (drop n xs)) = drop n xs" by blast
  then show ?case by (simp add: blocks_Suc)
qed

lemma blocks_concat:
  "\<forall>ys\<in>set yss. length ys = n \<Longrightarrow> blocks (length yss) n (concat yss) = yss"
  by (induction yss) (simp_all add: blocks_Suc)

lemma length_block:
  "length xs = k * n \<Longrightarrow> ys \<in> set (blocks k n xs) \<Longrightarrow> length ys = n"
proof (induction k arbitrary: xs)
  case 0
  then show ?case by simp
next
  case (Suc k)
  from Suc.prems(1) have len: "length (drop n xs) = k * n" by simp
  from Suc.prems(2) consider "ys = take n xs" | "ys \<in> set (blocks k n (drop n xs))"
    by (auto simp: blocks_Suc)
  then show ?case
  proof cases
    case 1
    with Suc.prems(1) show ?thesis by simp
  next
    case 2
    with Suc.IH [OF len] show ?thesis by blast
  qed
qed

lemma length_concat_uniform:
  "\<forall>ys\<in>set yss. length ys = n \<Longrightarrow> length (concat yss) = length yss * n"
  by (induction yss) simp_all


lemma chan_shapedD:
  assumes "chan_shaped b c m css"
  shows "length css = b" and "\<And>cs. cs \<in> set css \<Longrightarrow> length cs = c"
    and "\<And>cs ch. cs \<in> set css \<Longrightarrow> ch \<in> set cs \<Longrightarrow> length ch = m"
  using assms by (auto simp: chan_shaped_def list_all_iff)

lemma chan_shapedI:
  assumes "length css = b" and "\<And>cs. cs \<in> set css \<Longrightarrow> length cs = c"
    and "\<And>cs ch. cs \<in> set css \<Longrightarrow> ch \<in> set cs \<Longrightarrow> length ch = m"
  shows "chan_shaped b c m css"
  using assms by (auto simp: chan_shaped_def list_all_iff)

lemma length_concat_channel:
  assumes "length cs = c" and "\<And>ch. ch \<in> set cs \<Longrightarrow> length ch = m"
  shows "length (concat cs) = c * m"
  using length_concat_uniform [of cs m] assms by simp

lemma length_unchannels:
  assumes "chan_shaped b c m css"
  shows "length (unchannels css) = b * (c * m)"
proof -
  have "\<forall>ys\<in>set (map concat css). length ys = c * m"
    using chan_shapedD [OF assms] by (auto intro: length_concat_channel)
  from length_concat_uniform [OF this] show ?thesis
    using chan_shapedD(1) [OF assms] by (simp add: unchannels_def)
qed

lemma channels_shaped:
  assumes "consistent x" and "shape x = b # c # rest"
  shows "chan_shaped b c (prod_list rest) (channels x)"
    and "unchannels (channels x) = data x"
proof -
  let ?m = "prod_list rest"
  have len: "length (data x) = b * (c * ?m)"
    using assms by (simp add: consistent_def)
  have ch: "channels x = map (blocks c ?m) (blocks b (c * ?m) (data x))"
    using assms(2) by (simp add: channels_def Let_def)
  have blk: "\<And>ys. ys \<in> set (blocks b (c * ?m) (data x)) \<Longrightarrow> length ys = c * ?m"
    using length_block [OF len] by blast
  show "chan_shaped b c ?m (channels x)"
  proof (rule chan_shapedI)
    show "length (channels x) = b" by (simp add: ch)
  next
    fix cs assume "cs \<in> set (channels x)"
    then show "length cs = c" by (auto simp: ch)
  next
    fix cs ch' assume "cs \<in> set (channels x)" and "ch' \<in> set cs"
    then obtain ys where ys: "ys \<in> set (blocks b (c * ?m) (data x))"
      and "ch' \<in> set (blocks c ?m ys)"
      by (auto simp: ch)
    with blk [OF ys] show "length ch' = ?m"
      using length_block [of ys c ?m ch'] by simp
  qed
  have "map concat (channels x) = blocks b (c * ?m) (data x)"
    unfolding ch map_map
    by (rule map_idI) (simp add: concat_blocks blk)
  then show "unchannels (channels x) = data x"
    by (simp add: unchannels_def concat_blocks [OF len])
qed

lemma channels_unchannels:
  assumes "chan_shaped b c m css" and "shape t = b # c # rest" and "prod_list rest = m"
    and "data t = unchannels css"
  shows "channels t = css"
proof -
  have 1: "\<forall>ys\<in>set (map concat css). length ys = c * m"
    using chan_shapedD [OF assms(1)] by (auto intro: length_concat_channel)
  have "blocks b (c * m) (concat (map concat css)) = map concat css"
    using blocks_concat [OF 1] chan_shapedD(1) [OF assms(1)] by simp
  moreover have "map (blocks c m) (map concat css) = css"
    unfolding map_map
  proof (rule map_idI)
    fix cs assume cs: "cs \<in> set css"
    have "\<forall>ch\<in>set cs. length ch = m"
      using chan_shapedD(3) [OF assms(1) cs] by blast
    from blocks_concat [OF this] show "(blocks c m \<circ> concat) cs = cs"
      using chan_shapedD(2) [OF assms(1) cs] by simp
  qed
  ultimately show ?thesis
    using assms(2-4) by (simp add: channels_def unchannels_def Let_def)
qed

section \<open>Round trips\<close>

lemma inverse_pairD:
  assumes "inverse_pair n idx ridx"
  shows "length idx = n" "length ridx = n"
    "\<And>i. i < n \<Longrightarrow> idx ! i < n" "\<And>i. i < n \<Longrightarrow> ridx ! i < n"
    "\<And>i. i < n \<Longrightarrow> idx ! (ridx ! i) = i" "\<And>i. i < n \<Longrightarrow> ridx ! (idx ! i) = i"
  using assms by (auto simp: inverse_pair_def list_all_iff)

lemma inverse_pair_sym: "inverse_pair n idx ridx \<Longrightarrow> inverse_pair n ridx idx"
  by (auto simp: inverse_pair_def list_all_iff)

lemma index_dim1_Inr:
  assumes x: "consistent x" "shape x = b # c # rest"
    and idx: "\<And>i. i \<in> set idx \<Longrightarrow> i < c"
  shows "index_dim1 x idx =
           Inr (mk (b # length idx # rest) (unchannels (map (\<lambda>cs. map (nth cs) idx) (channels x))))"
    and "chan_shaped b (length idx) (prod_list rest) (map (\<lambda>cs. map (nth cs) idx) (channels x))"
proof -
  have "\<not> list_ex (\<lambda>i. c \<le> i) idx"
    using idx by (fastforce simp: list_ex_iff)
  then show "index_dim1 x idx =
           Inr (mk (b # length idx # rest) (unchannels (map (\<lambda>cs. map (nth cs) idx) (channels x))))"
    using x(2) by (simp add: index_dim1_def)
  note sh = channels_shaped(1) [OF x]
  show "chan_shaped b (length idx) (prod_list rest) (map (\<lambda>cs. map (nth cs) idx) (channels x))"
  proof (rule chan_shapedI)
    show "length (map (\<lambda>cs. map ((!) cs) idx) (channels x)) = b"
      using chan_shapedD(1) [OF sh] by simp
  next
    fix cs assume "cs \<in> set (map (\<lambda>cs. map ((!) cs) idx) (channels x))"
    then show "length cs = length idx" by auto
  next
    fix cs ch assume "cs \<in> set (map (\<lambda>cs. map ((!) cs) idx) (channels x))" "ch \<in> set cs"
    then obtain ds i where ds: "ds \<in> set (channels x)" and i: "i \<in> set idx" and ch: "ch = ds ! i"
      by auto
    have "i < length ds" using chan_shapedD(2) [OF sh ds] idx [OF i] by simp
    then have "ch \<in> set ds" using ch by simp
    then show "length ch = prod_list rest" using chan_shapedD(3) [OF sh ds] by blast
  qed
qed

lemma index_dim1_round_trip:
  assumes x: "consistent x" "shape x = b # n # rest"
    and p: "inverse_pair n idx ridx"
  shows "\<exists>y. index_dim1 x idx = Inr y \<and> consistent y \<and> shape y = b # n # rest \<and>
             strides y = contiguous_strides (shape y) \<and>
             index_dim1 y ridx = Inr (mk (shape x) (data x))"
proof -
  let ?m = "prod_list rest"
  let ?css = "map (\<lambda>cs. map (nth cs) idx) (channels x)"
  let ?y = "mk (b # length idx # rest) (unchannels ?css)"
  note P = inverse_pairD [OF p]
  have idx: "\<And>i. i \<in> set idx \<Longrightarrow> i < n"
    using P(1,3) by (auto simp: in_set_conv_nth)
  have ridx: "\<And>i. i \<in> set ridx \<Longrightarrow> i < n"
    using P(2,4) by (auto simp: in_set_conv_nth)
  note fw = index_dim1_Inr [OF x idx]
  have shy: "shape ?y = b # n # rest" using P(1) by (simp add: mk_def)
  have cy: "consistent ?y"
    using length_unchannels [OF fw(2)] P(1) by (simp add: consistent_def mk_def)
  have chy: "channels ?y = ?css"
    by (rule channels_unchannels [OF fw(2)]) (simp_all add: mk_def)
  note bw = index_dim1_Inr [OF cy shy ridx]
  note sh = channels_shaped [OF x]
  have "map (\<lambda>cs. map (nth cs) ridx) (channels ?y) = channels x"
    unfolding chy map_map
  proof (rule map_idI)
    fix cs assume cs: "cs \<in> set (channels x)"
    have len: "length cs = n" using chan_shapedD(2) [OF sh(1) cs] .
    show "((\<lambda>cs. map ((!) cs) ridx) \<circ> (\<lambda>cs. map ((!) cs) idx)) cs = cs"
      by (rule nth_equalityI) (simp_all add: P len)
  qed
  with bw(1) have "index_dim1 ?y ridx = Inr (mk (shape x) (data x))"
    using sh(2) P(2) x(2) by simp
  with fw(1) cy shy show ?thesis by (auto simp: mk_def)
qed

lemma Shuffle_round_trips:
  assumes "inverse_pair n idx ridx"
  shows "round_trips T L X (array_of n) (Shuffle idx ridx)"
  unfolding round_trips_def
proof (intro allI impI)
  fix x :: "'a tensor" and objective :: 'a
  assume a: "array_of n x"
  then obtain b rest where sh: "shape x = b # n # rest"
    by (cases "shape x"; cases "tl (shape x)") (auto simp: array_of_def)
  from a have c: "consistent x" and st: "strides x = contiguous_strides (shape x)"
    by (auto simp: array_of_def well_formed_def consistent_def)
  from index_dim1_round_trip [OF c sh assms] obtain y where
    y: "index_dim1 x idx = Inr y" "consistent y" "shape y = b # n # rest"
       "strides y = contiguous_strides (shape y)"
       "index_dim1 y ridx = Inr (mk (shape x) (data x))"
    by blast
  have "mk (shape x) (data x) = x" using st by (simp add: mk_def)
  with y have "forward_and_jacobian T L X (Shuffle idx ridx) (Some x) objective = Inr (Some y, objective)"
    "array_of n y"
    "reverse_and_jacobian T L X (Shuffle idx ridx) (Some y) objective = Inr (Some x, objective)"
    by (simp_all add: Shuffle_forward_and_jacobian_def Shuffle_reverse_and_jacobian_def
        array_of_def well_formed_def consistent_def)
  then show "\<exists>y objective'.
           forward_and_jacobian T L X (Shuffle idx ridx) (Some x) objective = Inr (Some y, objective') \<and>
           array_of n y \<and>
           reverse_and_jacobian T L X (Shuffle idx ridx) (Some y) objective' = Inr (Some x, objective)"
    by blast
qed

lemma LayerList_round_trips_aux:
  assumes "\<And>l. l \<in> set ls \<Longrightarrow> round_trips T L X P l" and "P x"
  shows "\<exists>y objective'.
           LayerList_forward T L X ls (Some x) objective = Inr (Some y, objective') \<and> P y \<and>
           LayerList_reverse T L X ls (Some y) objective' = Inr (Some x, objective)"
  using assms
proof (induction ls arbitrary: x objective)
  case Nil
  then show ?case by simp
next
  case (Cons l ls)
  from Cons.prems have "round_trips T L X P l" by simp
  with \<open>P x\<close> obtain y1 o1 where
    1: "forward_and_jacobian T L X l (Some x) objective = Inr (Some y1, o1)" "P y1"
       "reverse_and_jacobian T L X l (Some y1) o1 = Inr (Some x, objective)"
    unfolding round_trips_def by blast
  from Cons.IH [OF _ \<open>P y1\<close>, of o1] Cons.prems(1) obtain y o2 where
    2: "LayerList_forward T L X ls (Some y1) o1 = Inr (Some y, o2)" "P y"
       "LayerList_reverse T L X ls (Some y) o2 = Inr (Some y1, o1)"
    by auto
  from 1 2 show ?case by auto
qed

lemma LayerList_round_trips:
  assumes "\<And>l. l \<in> set ls \<Longrightarrow> round_trips T L X P l"
  shows "round_trips T L X P (LayerList ls)"
  unfolding round_trips_def using LayerList_round_trips_aux [OF assms] by simp

lemma rev_indices_loop_Inr:
  assumes "distinct js" and "inj_on (nth idx) (set js)"
    and "\<And>i. i \<in> set js \<Longrightarrow> i < length idx \<and> idx ! i < length r"
  shows "\<exists>r'. rev_indices_loop idx r js = Inr r' \<and> length r' = length r \<and>
              (\<forall>i\<in>set js. r' ! (idx ! i) = i) \<and>
              (\<forall>p. p \<notin> nth idx ` set js \<longrightarrow> r' ! p = r ! p)"
  using assms
proof (induction js arbitrary: r)
  case Nil
  then show ?case by simp
next
  case (Cons i js)
  let ?r1 = "r[idx ! i := i]"
  have i: "i < length idx" "idx ! i < length r" using Cons.prems(3) by auto
  have "\<exists>r'. rev_indices_loop idx ?r1 js = Inr r' \<and> length r' = length ?r1 \<and>
              (\<forall>i\<in>set js. r' ! (idx ! i) = i) \<and>
              (\<forall>p. p \<notin> nth idx ` set js \<longrightarrow> r' ! p = ?r1 ! p)"
  proof (rule Cons.IH)
    show "distinct js" using Cons.prems(1) by simp
    show "inj_on (nth idx) (set js)" using Cons.prems(2) by (auto simp: inj_on_def)
    show "\<And>k. k \<in> set js \<Longrightarrow> k < length idx \<and> idx ! k < length ?r1"
      using Cons.prems(3) by simp
  qed
  then obtain r' where r': "rev_indices_loop idx ?r1 js = Inr r'" "length r' = length r"
    "\<forall>k\<in>set js. r' ! (idx ! k) = k" "\<forall>p. p \<notin> nth idx ` set js \<longrightarrow> r' ! p = ?r1 ! p"
    by auto
  have "idx ! i \<notin> nth idx ` set js"
    using Cons.prems(1,2) by (auto simp: inj_on_def)
  with r'(4) i have "r' ! (idx ! i) = i" by simp
  moreover have "\<forall>p. p \<notin> nth idx ` set (i # js) \<longrightarrow> r' ! p = r ! p"
    using r'(4) by auto
  ultimately show ?case using r' i by simp
qed

lemma Shuffle_init_inverse_pair:
  assumes "mset (fst (np_random_shuffle A g [0..<n])) = mset [0..<n]"
  shows "\<exists>idx ridx g'. Shuffle_init A g [n] = Inr (Shuffle idx ridx, g') \<and>
           inverse_pair n idx ridx"
proof -
  obtain idx g' where sh: "np_random_shuffle A g [0..<n] = (idx, g')"
    by (cases "np_random_shuffle A g [0..<n]")
  with assms have m: "mset idx = mset [0..<n]" by simp
  then have len: "length idx = n" and set: "set idx = {0..<n}" and dist: "distinct idx"
    using mset_eq_length [OF m] mset_eq_setD [OF m] mset_eq_imp_distinct_iff [OF m] by auto
  have inj: "inj_on (nth idx) (set [0..<n])"
    using dist len by (auto simp: inj_on_def nth_eq_iff_index_eq)
  have bound: "\<And>i. i \<in> set [0..<n] \<Longrightarrow> i < length idx \<and> idx ! i < length (replicate (length idx) (0::nat))"
    using len set by (metis atLeastLessThan_iff length_replicate nth_mem set_upt)
  from rev_indices_loop_Inr [OF distinct_upt inj bound] obtain r where
    r: "rev_indices_loop idx (replicate (length idx) 0) [0..<n] = Inr r" "length r = n"
       "\<forall>i\<in>set [0..<n]. r ! (idx ! i) = i"
    using len by auto
  have "inverse_pair n idx r"
    unfolding inverse_pair_def list_all_iff
  proof (intro conjI ballI)
    show "length idx = n" "length r = n" by fact+
  next
    fix i assume i: "i \<in> set [0..<n]"
    then show 1: "idx ! i < n" using len set by (metis atLeastLessThan_iff nth_mem set_upt)
    from i have "i \<in> set idx" using set by simp
    then obtain k where k: "k < n" "idx ! k = i" using len by (auto simp: in_set_conv_nth)
    with r(3) have rk: "r ! i = k" by auto
    with k show "r ! i < n" "idx ! (r ! i) = i" by auto
    show "r ! (idx ! i) = i" using r(3) i by blast
  qed
  moreover have "Shuffle_init A g [n] = Inr (Shuffle idx r, g')"
    using sh r(1) by (simp add: Shuffle_init_def Layer_init_def Module_init_def)
  ultimately show ?thesis by blast
qed

lemma LayerList_forward_append:
  "LayerList_forward T L X (ls @ [l]) x objective =
     (case LayerList_forward T L X ls x objective of
        Inl e \<Rightarrow> Inl e
      | Inr (x', objective') \<Rightarrow> forward_and_jacobian T L X l x' objective')"
  by (induction ls arbitrary: x objective) (auto split: sum.splits)

lemma LayerList_reverse_append:
  "LayerList_reverse T L X (ls @ [l]) x objective =
     (case reverse_and_jacobian T L X l x objective of
        Inl e \<Rightarrow> Inl e
      | Inr (x', objective') \<Rightarrow> LayerList_reverse T L X ls x' objective')"
  by (induction ls arbitrary: x objective) (auto split: sum.splits)

lemma GaussianPrior_forward_None:
  "forward_and_jacobian T L X (GaussianPrior cv) x objective = Inr (y, objective') \<Longrightarrow> y = None"
  by (auto simp: GaussianPrior_forward_and_jacobian_def Let_def
      split: option.splits sum.splits list.splits if_splits)

lemma Codec_init_ends_with_prior:
  "Codec_init T A g sh a = Inr (codec, g') \<Longrightarrow> \<exists>ls cv. codec = LayerList (ls @ [GaussianPrior cv])"
  by (auto simp: Codec_init_def GaussianPrior_init_def split: sum.splits prod.splits if_splits)

lemma Codec_forward_None:
  assumes "Codec_init T A g sh a = Inr (codec, g')"
    and "forward_and_jacobian T L X codec x objective = Inr (y, objective')"
  shows "y = None"
proof -
  from Codec_init_ends_with_prior [OF assms(1)] obtain ls cv where
    c: "codec = LayerList (ls @ [GaussianPrior cv])" by blast
  with assms(2) obtain x' o' where
    "forward_and_jacobian T L X (GaussianPrior cv) x' o' = Inr (y, objective')"
    by (auto simp: LayerList_forward_append split: sum.splits simp del: forward_and_jacobian.simps(5))
  then show ?thesis by (rule GaussianPrior_forward_None)
qed

lemma Codec_reverse_raises:
  assumes "Codec_init T A g sh a = Inr (codec, g')"
  shows "reverse_and_jacobian T L X codec y objective = Inl NotImplementedError"
proof -
  from Codec_init_ends_with_prior [OF assms(1)] obtain ls cv where
    c: "codec = LayerList (ls @ [GaussianPrior cv])" by blast
  then show ?thesis
    by (simp add: LayerList_reverse_append Layer_reverse_and_jacobian_def)
qed

lemma Codec_levels_2:
  "Codec_levels T A a 2 st = Codec_levels T A a (Suc (Suc 0)) st"
  by (simp add: numeral_2_eq_2)

lemma Codec_init_example:
  "\<exists>codec g'. Codec_init T (zero_ambient T) 0 [1, 4, 8, 8]
                 (example_args None ''shuffle'' ''additive'') = Inr (codec, g')"
  by (simp add: Codec_init_def Squeeze_init_def example_args_def output_shape_def RevNet_init_def
      RevNetStep_init_def norm_layers_def permutation_layers_def coupling_layers_def
      Shuffle_init_def Layer_init_def Module_init_def AdditiveCoupling_init_def Split_init_def
      GaussianPrior_init_def zero_ambient_def Codec_levels_2
      upt_rec [of _ "numeral _"] upt_rec [of _ "Suc _"])

lemma mset_rotate1: "mset (rotate1 xs) = mset xs"
  by (cases xs) simp_all

lemma mset_rotate: "mset (rotate n xs) = mset xs"
  by (induction n) (simp_all add: mset_rotate1)

text \<open>
  C1, as amended. The round trip is exact where the layers only relabel elements:
  a \<^verbatim>\<open>LayerList\<close> round-trips on a class of arrays when each of its layers does, and
  a \<^verbatim>\<open>Shuffle\<close> built by its constructor (the generator returning a permutation)
  round-trips on the contiguous arrays with its number of channels: the forward
  call succeeds, and the reverse call on its result returns the input array and the
  input objective unchanged.
\<close>

theorem round_trip_exact:
  "((\<forall>l\<in>set ls. round_trips T L X P l) \<longrightarrow> round_trips T L X P (LayerList ls)) \<and>
   (mset (fst (np_random_shuffle A g [0..<n])) = mset [0..<n] \<longrightarrow>
      (\<exists>idx ridx g'. Shuffle_init A g [n] = Inr (Shuffle idx ridx, g') \<and>
         round_trips T L X (array_of n) (Shuffle idx ridx)))"
proof (intro conjI impI)
  assume "\<forall>l\<in>set ls. round_trips T L X P l"
  then show "round_trips T L X P (LayerList ls)"
    by (intro LayerList_round_trips) blast
next
  assume "mset (fst (np_random_shuffle A g [0..<n])) = mset [0..<n]"
  from Shuffle_init_inverse_pair [OF this] obtain idx ridx g' where
    "Shuffle_init A g [n] = Inr (Shuffle idx ridx, g')" "inverse_pair n idx ridx"
    by blast
  then show "\<exists>idx ridx g'. Shuffle_init A g [n] = Inr (Shuffle idx ridx, g') \<and>
         round_trips T L X (array_of n) (Shuffle idx ridx)"
    using Shuffle_round_trips by blast
qed

text \<open>
  The instance of C1 at a list holding a \<^verbatim>\<open>Shuffle\<close> and a nested list with a second
  \<^verbatim>\<open>Shuffle\<close>, on an array of size \<open>(1, 3, 1, 2)\<close>.
\<close>

theorem round_trip_exact_witness:
  "\<forall>(T :: real torch) L X.
     \<exists>s1 s2 g1 g2.
       Shuffle_init (zero_ambient T) 1 [3] = Inr (s1, g1) \<and>
       Shuffle_init (zero_ambient T) 2 [3] = Inr (s2, g2) \<and>
       (\<exists>y objective'.
          forward_and_jacobian T L X (LayerList [s1, LayerList [s2]])
            (Some (mk [1, 3, 1, 2] [1, 2, 3, 4, 5, 6])) 0 = Inr (Some y, objective') \<and>
          reverse_and_jacobian T L X (LayerList [s1, LayerList [s2]]) (Some y) objective' =
            Inr (Some (mk [1, 3, 1, 2] [1, 2, 3, 4, 5, 6]), 0))"
proof (intro allI)
  fix T :: "real torch" and L :: "real linalg" and X :: "real external"
  let ?A = "zero_ambient T"
  let ?x = "mk [1, 3, 1, 2] [1, 2, 3, 4, 5, 6 :: real]"
  have perm: "\<And>g. mset (fst (np_random_shuffle ?A g [0..<3])) = mset [0..<3]"
    by (simp add: zero_ambient_def mset_rotate del: mset_upt)
  from round_trip_exact [of "[]" T L X "array_of 3" ?A 1 3] perm obtain i1 r1 g1 where
    s1: "Shuffle_init ?A 1 [3] = Inr (Shuffle i1 r1, g1)"
        "round_trips T L X (array_of 3) (Shuffle i1 r1)"
    by blast
  from round_trip_exact [of "[]" T L X "array_of 3" ?A 2 3] perm obtain i2 r2 g2 where
    s2: "Shuffle_init ?A 2 [3] = Inr (Shuffle i2 r2, g2)"
        "round_trips T L X (array_of 3) (Shuffle i2 r2)"
    by blast
  have inner: "round_trips T L X (array_of 3) (LayerList [Shuffle i2 r2])"
    using round_trip_exact [of "[Shuffle i2 r2]" T L X "array_of 3" ?A 1 3] s2(2) by simp
  have outer: "round_trips T L X (array_of 3) (LayerList [Shuffle i1 r1, LayerList [Shuffle i2 r2]])"
    using round_trip_exact [of "[Shuffle i1 r1, LayerList [Shuffle i2 r2]]" T L X "array_of 3" ?A 1 3]
      s1(2) inner by simp
  have "array_of 3 ?x"
    by (simp add: array_of_def well_formed_def mk_def)
  with outer have "\<exists>y objective'.
          forward_and_jacobian T L X (LayerList [Shuffle i1 r1, LayerList [Shuffle i2 r2]])
            (Some ?x) 0 = Inr (Some y, objective') \<and>
          reverse_and_jacobian T L X (LayerList [Shuffle i1 r1, LayerList [Shuffle i2 r2]]) (Some y) objective' =
            Inr (Some ?x, 0)"
    unfolding round_trips_def by blast
  with s1(1) s2(1) show "\<exists>s1 s2 g1 g2.
       Shuffle_init ?A 1 [3] = Inr (s1, g1) \<and>
       Shuffle_init ?A 2 [3] = Inr (s2, g2) \<and>
       (\<exists>y objective'.
          forward_and_jacobian T L X (LayerList [s1, LayerList [s2]])
            (Some ?x) 0 = Inr (Some y, objective') \<and>
          reverse_and_jacobian T L X (LayerList [s1, LayerList [s2]]) (Some y) objective' =
            Inr (Some ?x, 0))"
    by blast
qed

text \<open>
  C1 as stated fails for the composed model. The \<^verbatim>\<open>Codec\<close> with two scales, one
  step per scale, shuffle and additive coupling on input size \<open>(1, 4, 8, 8)\<close> is
  constructed; its forward call returns no array on any input (its last layer, the
  prior, returns \<^verbatim>\<open>None\<close>), and its reverse call returns nothing on any input.
\<close>

theorem Codec_round_trip_counterexample:
  "\<forall>(T :: real torch) L X.
     \<exists>codec g'.
       Codec_init T (zero_ambient T) 0 [1, 4, 8, 8]
         (example_args None ''shuffle'' ''additive'') = Inr (codec, g') \<and>
       (\<forall>x objective.
          (\<forall>y objective'. forward_and_jacobian T L X codec (Some x) objective \<noteq> Inr (Some y, objective')) \<and>
          (\<forall>y objective'. reverse_and_jacobian T L X codec y objective' \<noteq> Inr (Some x, objective)))"
proof (intro allI)
  fix T :: "real torch" and L :: "real linalg" and X :: "real external"
  obtain codec g' where c: "Codec_init T (zero_ambient T) 0 [1, 4, 8, 8]
         (example_args None ''shuffle'' ''additive'') = Inr (codec, g')"
    using Codec_init_example by blast
  have "forward_and_jacobian T L X codec (Some x) objective \<noteq> Inr (Some y, objective')"
    for x y objective objective'
    using Codec_forward_None [OF c] by blast
  moreover have "reverse_and_jacobian T L X codec y objective' \<noteq> Inr (Some x, objective)"
    for x y objective objective'
    by (simp add: Codec_reverse_raises [OF c])
  ultimately show "\<exists>codec g'.
       Codec_init T (zero_ambient T) 0 [1, 4, 8, 8]
         (example_args None ''shuffle'' ''additive'') = Inr (codec, g') \<and>
       (\<forall>x objective.
          (\<forall>y objective'. forward_and_jacobian T L X codec (Some x) objective \<noteq> Inr (Some y, objective')) \<and>
          (\<forall>y objective'. reverse_and_jacobian T L X codec y objective' \<noteq> Inr (Some x, objective)))"
    using c by blast
qed


section \<open>Coupling layers and the caller's array\<close>

lemma select_dim1_channels:
  assumes x: "consistent x" "shape x = b # c # rest"
    and js: "\<And>j. j \<in> set js \<Longrightarrow> j < c"
  shows "shape (select_dim1 x js st) = b # length js # rest"
    and "strides (select_dim1 x js st) = st"
    and "data (select_dim1 x js st) = unchannels (map (\<lambda>cs. map (nth cs) js) (channels x))"
    and "chan_shaped b (length js) (prod_list rest) (map (\<lambda>cs. map (nth cs) js) (channels x))"
    and "consistent (select_dim1 x js st)"
    and "channels (select_dim1 x js st) = map (\<lambda>cs. map (nth cs) js) (channels x)"
proof -
  show sh: "shape (select_dim1 x js st) = b # length js # rest"
    using x(2) by (simp add: select_dim1_def)
  show "strides (select_dim1 x js st) = st" by (simp add: select_dim1_def)
  show d: "data (select_dim1 x js st) = unchannels (map (\<lambda>cs. map (nth cs) js) (channels x))"
    by (simp add: select_dim1_def)
  show cs: "chan_shaped b (length js) (prod_list rest) (map (\<lambda>cs. map (nth cs) js) (channels x))"
    using index_dim1_Inr(2) [OF x js] .
  show "consistent (select_dim1 x js st)"
    using length_unchannels [OF cs] by (simp add: consistent_def sh d)
  show "channels (select_dim1 x js st) = map (\<lambda>cs. map (nth cs) js) (channels x)"
    by (rule channels_unchannels [OF cs sh refl d])
qed

lemma map_nth_range: "s + l \<le> length cs \<Longrightarrow> map (nth cs) [s..<s + l] = take l (drop s cs)"
  by (rule nth_equalityI) simp_all

lemma narrow_dim1_channels:
  assumes x: "consistent x" "shape x = b # c # rest" and r: "s + l \<le> c"
  shows "shape (narrow_dim1 x (s, l)) = b # l # rest"
    and "strides (narrow_dim1 x (s, l)) = strides x"
    and "consistent (narrow_dim1 x (s, l))"
    and "channels (narrow_dim1 x (s, l)) = map (\<lambda>cs. take l (drop s cs)) (channels x)"
proof -
  have js: "\<And>j. j \<in> set [s..<s + l] \<Longrightarrow> j < c" using r by simp
  note S = select_dim1_channels [where js = "[s..<s + l]", OF x js]
  show "shape (narrow_dim1 x (s, l)) = b # l # rest" using S(1) by (simp add: narrow_dim1_def)
  show "strides (narrow_dim1 x (s, l)) = strides x" using S(2) by (simp add: narrow_dim1_def)
  show "consistent (narrow_dim1 x (s, l))" using S(5) by (simp add: narrow_dim1_def)
  have "map (\<lambda>cs. map (nth cs) [s..<s + l]) (channels x) = map (\<lambda>cs. take l (drop s cs)) (channels x)"
  proof (rule map_cong [OF refl])
    fix cs assume "cs \<in> set (channels x)"
    then have "length cs = c" using chan_shapedD(2) [OF channels_shaped(1) [OF x]] by blast
    with r show "map (nth cs) [s..<s + l] = take l (drop s cs)" by (simp add: map_nth_range)
  qed
  then show "channels (narrow_dim1 x (s, l)) = map (\<lambda>cs. take l (drop s cs)) (channels x)"
    using S(6) by (simp add: narrow_dim1_def)
qed

lemma length_expand_data:
  "list_all2 (\<lambda>n m. m = n \<or> m = 1) sh src \<Longrightarrow> length xs = prod_list src \<Longrightarrow>
     length (expand_data sh src xs) = prod_list sh"
proof (induction sh src arbitrary: xs rule: list_all2_induct)
  case Nil
  then show ?case by simp
next
  case (Cons n ns m ms)
  show ?case
  proof (cases "m = n")
    case True
    have len: "length xs = m * prod_list ms" using Cons.prems by simp
    have "\<forall>ys\<in>set (map (expand_data ns ms) (blocks m (prod_list ms) xs)). length ys = prod_list ns"
      using Cons.IH length_block [OF len] by auto
    from length_concat_uniform [OF this] True show ?thesis by simp
  next
    case False
    with Cons.hyps have m: "m = 1" by simp
    with Cons.prems have "length xs = prod_list ms" by simp
    with Cons.IH have "length (expand_data ns ms xs) = prod_list ns" by blast
    with False show ?thesis by (simp add: length_concat sum_list_replicate)
  qed
qed

lemma expand_data_same: "length xs = prod_list sh \<Longrightarrow> expand_data sh sh xs = xs"
proof (induction sh arbitrary: xs)
  case Nil
  then show ?case by simp
next
  case (Cons n ns)
  have len: "length xs = n * prod_list ns" using Cons.prems by simp
  have "map (expand_data ns ns) (blocks n (prod_list ns) xs) = blocks n (prod_list ns) xs"
    by (rule map_idI) (simp add: Cons.IH length_block [OF len])
  then show ?case by (simp add: concat_blocks [OF len])
qed

lemma broadcast_to_length:
  assumes "consistent t" and "broadcast_to sh t = Inr ys"
  shows "length ys = prod_list sh"
proof -
  let ?src = "replicate (length sh - length (shape t)) 1 @ shape t"
  from assms(2) have c: "list_all2 (\<lambda>n m. m = n \<or> m = 1) sh ?src"
    and ys: "ys = expand_data sh ?src (data t)"
    by (auto simp: broadcast_to_def Let_def split: if_splits)
  have "length (data t) = prod_list ?src" using assms(1) by (simp add: consistent_def)
  from length_expand_data [OF c this] ys show ?thesis by simp
qed

lemma broadcast_to_same:
  assumes "consistent t" and "shape t = sh"
  shows "broadcast_to sh t = Inr (data t)"
  using assms by (simp add: broadcast_to_def consistent_def expand_data_same list_all2_same)

lemma in_place_length:
  assumes "consistent a" "consistent t" "in_place f a t = Inr vs"
  shows "length vs = prod_list (shape a)"
proof -
  from assms(3) obtain ys where ys: "broadcast_to (shape a) t = Inr ys" "vs = map2 f (data a) ys"
    by (auto simp: in_place_def split: sum.splits)
  with broadcast_to_length [OF assms(2) ys(1)] assms(1) show ?thesis
    by (simp add: consistent_def)
qed

lemma in_place_same:
  assumes "consistent t" "shape t = shape a"
  shows "in_place f a t = Inr (map2 f (data a) (data t))"
  using broadcast_to_same [OF assms] by (simp add: in_place_def)

lemma write_dim1_channels:
  assumes x: "consistent x" "shape x = b # c # rest" and r: "s + l \<le> c"
    and vs: "length vs = b * (l * prod_list rest)"
  shows "shape (write_dim1 x (s, l) vs) = shape x"
    and "strides (write_dim1 x (s, l) vs) = strides x"
    and "consistent (write_dim1 x (s, l) vs)"
    and "channels (write_dim1 x (s, l) vs) =
           map (\<lambda>(cs, ws). take s cs @ ws @ drop (s + l) cs)
             (zip (channels x) (channels (mk (b # l # rest) vs)))"
proof -
  let ?m = "prod_list rest"
  let ?w = "mk (b # l # rest) vs"
  let ?css = "map (\<lambda>(cs, ws). take s cs @ ws @ drop (s + l) cs) (zip (channels x) (channels ?w))"
  have cw: "consistent ?w" "shape ?w = b # l # rest" using vs by (simp_all add: consistent_def mk_def)
  note W = channels_shaped [OF cw]
  note X = channels_shaped [OF x]
  have chw: "channels ?w = map (blocks l ?m) (blocks b (l * ?m) vs)"
    by (simp add: channels_def mk_def Let_def)
  show sh: "shape (write_dim1 x (s, l) vs) = shape x"
    and "strides (write_dim1 x (s, l) vs) = strides x"
    by (simp_all add: write_dim1_def Let_def)
  have d: "data (write_dim1 x (s, l) vs) = unchannels ?css"
    using x(2) by (simp add: write_dim1_def Let_def chw)
  have shaped: "chan_shaped b c ?m ?css"
  proof (rule chan_shapedI)
    show "length ?css = b" using chan_shapedD(1) [OF X(1)] chan_shapedD(1) [OF W(1)] by simp
  next
    fix ds assume "ds \<in> set ?css"
    then obtain cs ws where p: "(cs, ws) \<in> set (zip (channels x) (channels ?w))"
      and ds: "ds = take s cs @ ws @ drop (s + l) cs" by auto
    from p have "cs \<in> set (channels x)" "ws \<in> set (channels ?w)"
      by (auto dest: set_zip_leftD set_zip_rightD)
    then have "length cs = c" "length ws = l"
      using chan_shapedD(2) [OF X(1)] chan_shapedD(2) [OF W(1)] by blast+
    with r show "length ds = c" by (simp add: ds)
  next
    fix ds ch assume "ds \<in> set ?css" "ch \<in> set ds"
    then obtain cs ws where p: "(cs, ws) \<in> set (zip (channels x) (channels ?w))"
      and ch: "ch \<in> set (take s cs) \<or> ch \<in> set ws \<or> ch \<in> set (drop (s + l) cs)" by auto
    from p have m: "cs \<in> set (channels x)" "ws \<in> set (channels ?w)"
      by (auto dest: set_zip_leftD set_zip_rightD)
    from ch have "ch \<in> set cs \<or> ch \<in> set ws"
      by (auto dest: in_set_takeD in_set_dropD)
    then show "length ch = ?m"
      using chan_shapedD(3) [OF X(1) m(1)] chan_shapedD(3) [OF W(1) m(2)] by blast
  qed
  show "consistent (write_dim1 x (s, l) vs)"
    using length_unchannels [OF shaped] x(2) by (simp add: consistent_def sh d)
  show "channels (write_dim1 x (s, l) vs) = ?css"
    by (rule channels_unchannels [OF shaped _ refl d]) (simp add: sh x(2))
qed

lemma cat_dim1_channels:
  assumes "shape a = b # l1 # rest" and "shape t = b # l2 # rest"
  shows "cat_dim1 a t =
           Inr (mk (b # (l1 + l2) # rest)
                  (unchannels (map (\<lambda>(cs, ds). cs @ ds) (zip (channels a) (channels t)))))"
  using assms by (simp add: cat_dim1_def)

lemma chunk2_pieces:
  assumes "chunk2 c = [r1, r2]"
  shows "\<exists>k. k \<le> c \<and> r1 = (0, k) \<and> r2 = (k, c - k)"
  using assms by (auto simp: chunk2_def Let_def split: if_splits)

lemma cat_pieces:
  assumes x: "consistent x" "shape x = b # c # rest" and k: "k \<le> c"
  shows "cat_dim1 (narrow_dim1 x (0, k)) (narrow_dim1 x (k, c - k)) = Inr (mk (shape x) (data x))"
proof -
  have r1: "0 + k \<le> c" and r2: "k + (c - k) \<le> c" using k by simp_all
  note N1 = narrow_dim1_channels [OF x r1]
  note N2 = narrow_dim1_channels [OF x r2]
  note X = channels_shaped [OF x]
  have "map (\<lambda>(cs, ds). cs @ ds)
          (zip (channels (narrow_dim1 x (0, k))) (channels (narrow_dim1 x (k, c - k)))) =
        map (\<lambda>cs. take k cs @ take (c - k) (drop k cs)) (channels x)"
    unfolding N1(4) N2(4) by (simp add: zip_map_map zip_same_conv_map)
  also have "\<dots> = channels x"
  proof (rule map_idI)
    fix cs assume "cs \<in> set (channels x)"
    then have "length cs = c" using chan_shapedD(2) [OF X(1)] by blast
    then show "take k cs @ take (c - k) (drop k cs) = cs" by simp
  qed
  finally show ?thesis
    using cat_dim1_channels [OF N1(1) N2(1)] k X(2) x(2) by simp
qed

lemma in_place_write:
  assumes x: "consistent x" "shape x = b # c # rest" and k: "k \<le> c"
    and t: "consistent t" and vs: "in_place f (narrow_dim1 x (k, c - k)) t = Inr vs"
  shows "shape (write_dim1 x (k, c - k) vs) = shape x"
    and "strides (write_dim1 x (k, c - k) vs) = strides x"
    and "consistent (write_dim1 x (k, c - k) vs)"
    and "narrow_dim1 (write_dim1 x (k, c - k) vs) (0, k) = narrow_dim1 x (0, k)"
    and "data (narrow_dim1 (write_dim1 x (k, c - k) vs) (k, c - k)) = vs"
proof -
  let ?x' = "write_dim1 x (k, c - k) vs"
  let ?w = "mk (b # (c - k) # rest) vs"
  have r1: "0 + k \<le> c" and r2: "k + (c - k) \<le> c" using k by simp_all
  note N2 = narrow_dim1_channels [OF x r2]
  have len: "length vs = b * ((c - k) * prod_list rest)"
    using in_place_length [OF N2(3) t vs] N2(1) by simp
  note W = write_dim1_channels [OF x r2 len]
  show sh: "shape ?x' = shape x" and st: "strides ?x' = strides x" and c: "consistent ?x'"
    by (rule W)+
  have x': "shape ?x' = b # c # rest" using sh x(2) by simp
  note X = channels_shaped [OF x]
  have cw: "consistent ?w" "shape ?w = b # (c - k) # rest"
    using len by (simp_all add: consistent_def mk_def)
  note Wc = channels_shaped [OF cw]
  have lens: "length (channels x) = length (channels ?w)"
    using chan_shapedD(1) [OF X(1)] chan_shapedD(1) [OF Wc(1)] by simp
  have pair: "\<And>cs ws. (cs, ws) \<in> set (zip (channels x) (channels ?w)) \<Longrightarrow> length cs = c"
    using chan_shapedD(2) [OF X(1)] by (auto dest: set_zip_leftD)
  have "map (\<lambda>cs. take k (drop 0 cs)) (channels ?x') = map (\<lambda>cs. take k (drop 0 cs)) (channels x)"
  proof -
    have "map (\<lambda>cs. take k (drop 0 cs)) (channels ?x') =
          map (\<lambda>(cs, ws). take k cs) (zip (channels x) (channels ?w))"
      unfolding W(4) map_map using k by (intro map_cong [OF refl]) (auto dest: pair)
    also have "\<dots> = map (take k) (map fst (zip (channels x) (channels ?w)))"
      by (simp add: case_prod_beta comp_def)
    finally show ?thesis using lens by simp
  qed
  then have "channels (narrow_dim1 ?x' (0, k)) = channels (narrow_dim1 x (0, k))"
    using narrow_dim1_channels(4) [OF c x' r1] narrow_dim1_channels(4) [OF x r1] by simp
  moreover have "data (narrow_dim1 ?x' (0, k)) = unchannels (channels (narrow_dim1 ?x' (0, k)))"
    "data (narrow_dim1 x (0, k)) = unchannels (channels (narrow_dim1 x (0, k)))"
    using channels_shaped(2) [OF narrow_dim1_channels(3) [OF c x' r1] narrow_dim1_channels(1) [OF c x' r1]]
      channels_shaped(2) [OF narrow_dim1_channels(3) [OF x r1] narrow_dim1_channels(1) [OF x r1]]
    by simp_all
  ultimately have "data (narrow_dim1 ?x' (0, k)) = data (narrow_dim1 x (0, k))" by simp
  then show "narrow_dim1 ?x' (0, k) = narrow_dim1 x (0, k)"
    using sh st by (simp add: narrow_dim1_def select_dim1_def)
  have "map (\<lambda>cs. take (c - k) (drop k cs)) (channels ?x') =
        map (\<lambda>(cs, ws). ws) (zip (channels x) (channels ?w))"
    unfolding W(4) map_map
  proof (intro map_cong [OF refl])
    fix p assume p: "p \<in> set (zip (channels x) (channels ?w))"
    obtain cs ws where pw: "p = (cs, ws)" by (cases p)
    with p have "length cs = c" "ws \<in> set (channels ?w)"
      by (auto dest: pair set_zip_rightD)
    then have "length ws = c - k" using chan_shapedD(2) [OF Wc(1)] by blast
    with \<open>length cs = c\<close> k
    show "((\<lambda>cs. take (c - k) (drop k cs)) \<circ> (\<lambda>(cs, ws). take k cs @ ws @ drop (k + (c - k)) cs)) p =
          (case p of (cs, ws) \<Rightarrow> ws)"
      by (simp add: pw)
  qed
  also have "\<dots> = map snd (zip (channels x) (channels ?w))"
    by (simp add: case_prod_beta)
  finally have "channels (narrow_dim1 ?x' (k, c - k)) = channels ?w"
    using narrow_dim1_channels(4) [OF c x' r2] lens by simp
  then have "unchannels (channels (narrow_dim1 ?x' (k, c - k))) = vs"
    using Wc(2) by (simp add: mk_def)
  then show "data (narrow_dim1 ?x' (k, c - k)) = vs"
    using channels_shaped(2) [OF narrow_dim1_channels(3) [OF c x' r2] narrow_dim1_channels(1) [OF c x' r2]]
    by simp
qed

lemma shape_cases2:
  assumes "2 \<le> length (shape x)"
  obtains b c rest where "shape x = b # c # rest"
  using assms by (cases "shape x"; cases "tl (shape x)") auto

lemma unary_consistent:
  assumes "consistent a"
  shows "consistent (unary f a)" and "shape (unary f a) = shape a"
  using assms by (simp_all add: unary_def consistent_def mk_def)

lemma slice_dim1_consistent:
  assumes "consistent h" and "slice_dim1 h s st = Inr t"
  shows "consistent t"
proof -
  from assms(2) have d: "2 \<le> length (shape h)"
    and t: "t = select_dim1 h (filter (\<lambda>j. s \<le> j \<and> (j - s) mod st = 0) [0..<shape h ! 1])
                 ((strides h)[1 := st * strides h ! 1])"
    by (auto simp: slice_dim1_def split: if_splits)
  from d obtain b c rest where sh: "shape h = b # c # rest" by (rule shape_cases2)
  show ?thesis
    unfolding t by (rule select_dim1_channels(5) [OF assms(1) sh]) (simp add: sh)
qed

lemma shift_and_scale_consistent:
  assumes "consistent h" and "shift_and_scale T h = Inr (shift, scale)"
  shows "consistent shift" and "consistent scale"
  using assms
  by (auto simp: shift_and_scale_def split: sum.splits
      intro: slice_dim1_consistent unary_consistent(1))

text \<open>One in-place statement on the second piece, followed by the return.\<close>

lemma coupling_frame:
  assumes x: "consistent x" "shape x = b # c # rest" and k: "k \<le> c"
    and t: "consistent t" and vs: "in_place f (narrow_dim1 x (k, c - k)) t = Inr vs"
    and x1: "x1 = write_dim1 x (k, c - k) vs"
    and y: "cat_dim1 (narrow_dim1 x1 (0, k)) (narrow_dim1 x1 (k, c - k)) = Inr y"
  shows "shape x1 = shape x \<and> strides x1 = strides x \<and> data x1 = data y \<and>
         narrow_dim1 x1 (0, k) = narrow_dim1 x (0, k)"
proof -
  note W = in_place_write [OF x k t vs]
  have sh1: "shape x1 = b # c # rest" and c1: "consistent x1"
    using W(1,3) x(2) x1 by simp_all
  from cat_pieces [OF c1 sh1 k] y have "y = mk (shape x1) (data x1)" by simp
  then show ?thesis using W x1 by (simp add: mk_def)
qed

lemma coupling_frame2:
  assumes x: "consistent x" "shape x = b # c # rest" and k: "k \<le> c"
    and t: "consistent t" and vs: "in_place f (narrow_dim1 x (k, c - k)) t = Inr vs"
    and x1: "x1 = write_dim1 x (k, c - k) vs"
    and u: "consistent u" and ws: "in_place g (narrow_dim1 x1 (k, c - k)) u = Inr ws"
    and x2: "x2 = write_dim1 x1 (k, c - k) ws"
    and y: "cat_dim1 (narrow_dim1 x2 (0, k)) (narrow_dim1 x2 (k, c - k)) = Inr y"
  shows "shape x2 = shape x \<and> strides x2 = strides x \<and> data x2 = data y \<and>
         narrow_dim1 x2 (0, k) = narrow_dim1 x (0, k)"
proof -
  note W = in_place_write [OF x k t vs]
  have sh1: "shape x1 = b # c # rest" and c1: "consistent x1"
    using W(1,3) x(2) x1 by simp_all
  from coupling_frame [OF c1 sh1 k u ws x2 y] W x1 show ?thesis by simp
qed

lemma AdditiveCoupling_forward_Inr:
  "AdditiveCoupling_forward T nn (Some x) objective = Inr ((Some y, objective'), x') \<Longrightarrow>
     \<exists>r1 r2 t vs.
       2 \<le> length (shape x) \<and> chunk2 (shape x ! 1) = [r1, r2] \<and>
       nn (narrow_dim1 x r1) = Inr t \<and>
       in_place (f_add T) (narrow_dim1 x r2) t = Inr vs \<and>
       x' = write_dim1 x r2 vs \<and>
       cat_dim1 (narrow_dim1 x' r1) (narrow_dim1 x' r2) = Inr y \<and> objective' = objective"
  by (auto simp: AdditiveCoupling_forward_def Let_def split: if_splits list.splits sum.splits)

lemma AdditiveCoupling_reverse_Inr:
  "AdditiveCoupling_reverse T nn (Some x) objective = Inr ((Some y, objective'), x') \<Longrightarrow>
     \<exists>r1 r2 t vs.
       2 \<le> length (shape x) \<and> chunk2 (shape x ! 1) = [r1, r2] \<and>
       nn (narrow_dim1 x r1) = Inr t \<and>
       in_place (f_sub T) (narrow_dim1 x r2) t = Inr vs \<and>
       x' = write_dim1 x r2 vs \<and>
       cat_dim1 (narrow_dim1 x' r1) (narrow_dim1 x' r2) = Inr y \<and> objective' = objective"
  by (auto simp: AdditiveCoupling_reverse_def Let_def split: if_splits list.splits sum.splits)

lemma AffineCoupling_forward_Inr:
  "AffineCoupling_forward T nn (Some x) objective = Inr ((Some y, objective'), x') \<Longrightarrow>
     \<exists>r1 r2 h shift scale vs ws.
       2 \<le> length (shape x) \<and> chunk2 (shape x ! 1) = [r1, r2] \<and>
       nn (narrow_dim1 x r1) = Inr h \<and> shift_and_scale T h = Inr (shift, scale) \<and>
       in_place (f_add T) (narrow_dim1 x r2) shift = Inr vs \<and>
       in_place (f_mul T) (narrow_dim1 (write_dim1 x r2 vs) r2) scale = Inr ws \<and>
       x' = write_dim1 (write_dim1 x r2 vs) r2 ws \<and>
       cat_dim1 (narrow_dim1 x' r1) (narrow_dim1 x' r2) = Inr y \<and>
       objective' = f_add T objective (f_sum T (data (unary (f_log T) scale)))"
  by (auto simp: AffineCoupling_forward_def Let_def
      split: if_splits list.splits sum.splits prod.splits)

lemma AffineCoupling_reverse_Inr:
  "AffineCoupling_reverse T nn (Some x) objective = Inr ((Some y, objective'), x') \<Longrightarrow>
     \<exists>r1 r2 h shift scale vs ws.
       2 \<le> length (shape x) \<and> chunk2 (shape x ! 1) = [r1, r2] \<and>
       nn (narrow_dim1 x r1) = Inr h \<and> shift_and_scale T h = Inr (shift, scale) \<and>
       in_place (f_div T) (narrow_dim1 x r2) scale = Inr vs \<and>
       in_place (f_sub T) (narrow_dim1 (write_dim1 x r2 vs) r2) shift = Inr ws \<and>
       x' = write_dim1 (write_dim1 x r2 vs) r2 ws \<and>
       cat_dim1 (narrow_dim1 x' r1) (narrow_dim1 x' r2) = Inr y \<and>
       objective' = f_sub T objective (f_sum T (data (unary (f_log T) scale)))"
  by (auto simp: AffineCoupling_reverse_def Let_def
      split: if_splits list.splits sum.splits prod.splits)

lemma additive_frame:
  assumes "consistent x" and "returns_tensors nn"
    and "2 \<le> length (shape x)" and ch: "chunk2 (shape x ! 1) = [r1, r2]"
    and t: "nn (narrow_dim1 x r1) = Inr t"
    and vs: "in_place f (narrow_dim1 x r2) t = Inr vs"
    and x': "x' = write_dim1 x r2 vs"
    and y: "cat_dim1 (narrow_dim1 x' r1) (narrow_dim1 x' r2) = Inr y"
  shows "shape x' = shape x \<and> strides x' = strides x \<and> data x' = data y \<and>
         (\<exists>k. chunk2 (shape x ! 1) = [(0, k), (k, shape x ! 1 - k)] \<and>
              narrow_dim1 x' (0, k) = narrow_dim1 x (0, k))"
proof -
  from assms(3) obtain b c rest where sh: "shape x = b # c # rest" by (rule shape_cases2)
  from chunk2_pieces [OF ch] sh obtain k where
    k: "k \<le> c" "r1 = (0, k)" "r2 = (k, c - k)" by auto
  have ct: "consistent t" using assms(2) t by (auto simp: returns_tensors_def)
  from coupling_frame [OF assms(1) sh k(1) ct vs [unfolded k] x' [unfolded k] y [unfolded k]]
  show ?thesis using ch k sh by auto
qed

lemma affine_frame:
  assumes "consistent x" and "returns_tensors nn"
    and "2 \<le> length (shape x)" and ch: "chunk2 (shape x ! 1) = [r1, r2]"
    and h: "nn (narrow_dim1 x r1) = Inr h" and ss: "shift_and_scale T h = Inr (shift, scale)"
    and tu: "t = shift \<and> u = scale \<or> t = scale \<and> u = shift"
    and vs: "in_place f (narrow_dim1 x r2) t = Inr vs"
    and ws: "in_place g (narrow_dim1 (write_dim1 x r2 vs) r2) u = Inr ws"
    and x': "x' = write_dim1 (write_dim1 x r2 vs) r2 ws"
    and y: "cat_dim1 (narrow_dim1 x' r1) (narrow_dim1 x' r2) = Inr y"
  shows "shape x' = shape x \<and> strides x' = strides x \<and> data x' = data y \<and>
         (\<exists>k. chunk2 (shape x ! 1) = [(0, k), (k, shape x ! 1 - k)] \<and>
              narrow_dim1 x' (0, k) = narrow_dim1 x (0, k))"
proof -
  from assms(3) obtain b c rest where sh: "shape x = b # c # rest" by (rule shape_cases2)
  from chunk2_pieces [OF ch] sh obtain k where
    k: "k \<le> c" "r1 = (0, k)" "r2 = (k, c - k)" by auto
  have "consistent h" using assms(2) h by (auto simp: returns_tensors_def)
  from shift_and_scale_consistent [OF this ss] tu have ct: "consistent t" and cu: "consistent u"
    by auto
  from coupling_frame2 [OF assms(1) sh k(1) ct vs [unfolded k] refl cu ws [unfolded k]
      x' [unfolded k] y [unfolded k]]
  show ?thesis using ch k sh by auto
qed

text \<open>
  C10, as amended. Both coupling layers overwrite the caller's array in both
  directions: whenever a call returns, the array it was given has kept its size
  and strides, its first piece of channels is unchanged, and it now holds exactly
  the elements of the returned array, so its second piece has been replaced in
  place by the transformed values.
\<close>

theorem coupling_writes_second_half:
  assumes "consistent x" and "returns_tensors nn"
    and "M \<in> {AdditiveCoupling_forward T nn, AdditiveCoupling_reverse T nn,
               AffineCoupling_forward T nn, AffineCoupling_reverse T nn}"
    and "M (Some x) objective = Inr ((Some y, objective'), x')"
  shows "shape x' = shape x \<and> strides x' = strides x \<and> data x' = data y \<and>
         (\<exists>k. chunk2 (shape x ! 1) = [(0, k), (k, shape x ! 1 - k)] \<and>
              narrow_dim1 x' (0, k) = narrow_dim1 x (0, k))"
proof -
  from assms(3) consider
      "M = AdditiveCoupling_forward T nn" | "M = AdditiveCoupling_reverse T nn"
    | "M = AffineCoupling_forward T nn" | "M = AffineCoupling_reverse T nn"
    by blast
  then show ?thesis
  proof cases
    case 1
    with AdditiveCoupling_forward_Inr [of T nn x objective y objective' x'] assms(4)
    show ?thesis using additive_frame [OF assms(1,2)] by blast
  next
    case 2
    with AdditiveCoupling_reverse_Inr [of T nn x objective y objective' x'] assms(4)
    show ?thesis using additive_frame [OF assms(1,2)] by blast
  next
    case 3
    with AffineCoupling_forward_Inr [of T nn x objective y objective' x'] assms(4)
    obtain r1 r2 h shift scale vs ws where
      A: "2 \<le> length (shape x)" "chunk2 (shape x ! 1) = [r1, r2]"
      "nn (narrow_dim1 x r1) = Inr h" "shift_and_scale T h = Inr (shift, scale)"
      "in_place (f_add T) (narrow_dim1 x r2) shift = Inr vs"
      "in_place (f_mul T) (narrow_dim1 (write_dim1 x r2 vs) r2) scale = Inr ws"
      "x' = write_dim1 (write_dim1 x r2 vs) r2 ws"
      "cat_dim1 (narrow_dim1 x' r1) (narrow_dim1 x' r2) = Inr y"
      by blast
    have "shift = shift \<and> scale = scale \<or> shift = scale \<and> scale = shift" by simp
    from affine_frame [OF assms(1,2) A(1-4) this A(5-8)] show ?thesis .
  next
    case 4
    with AffineCoupling_reverse_Inr [of T nn x objective y objective' x'] assms(4)
    obtain r1 r2 h shift scale vs ws where
      A: "2 \<le> length (shape x)" "chunk2 (shape x ! 1) = [r1, r2]"
      "nn (narrow_dim1 x r1) = Inr h" "shift_and_scale T h = Inr (shift, scale)"
      "in_place (f_div T) (narrow_dim1 x r2) scale = Inr vs"
      "in_place (f_sub T) (narrow_dim1 (write_dim1 x r2 vs) r2) shift = Inr ws"
      "x' = write_dim1 (write_dim1 x r2 vs) r2 ws"
      "cat_dim1 (narrow_dim1 x' r1) (narrow_dim1 x' r2) = Inr y"
      by blast
    have "scale = shift \<and> shift = scale \<or> scale = scale \<and> shift = shift" by simp
    from affine_frame [OF assms(1,2) A(1-4) this A(5-8)] show ?thesis .
  qed
qed

lemma upt_2: "[0..<2] = [0, 1]" and upt_1: "[0..<1] = [0]" and upt_12: "[1..<2] = [1]"
  by (simp_all add: upt_rec [of _ "numeral _"] upt_rec [of _ "Suc _"])

lemma narrow_first_example: "narrow_dim1 (mk [1, 2, 1, 1] [a, b]) (0, 1) = \<lparr>shape = [1, 1, 1, 1], strides = [2, 1, 1, 1], data = [a]\<rparr>"
  by (simp add: narrow_dim1_def select_dim1_def channels_def blocks_def unchannels_def mk_def upt_2 upt_1)

lemma narrow_second_example: "narrow_dim1 (mk [1, 2, 1, 1] [a, b]) (1, 1) = \<lparr>shape = [1, 1, 1, 1], strides = [2, 1, 1, 1], data = [b]\<rparr>"
  by (simp add: narrow_dim1_def select_dim1_def channels_def blocks_def unchannels_def mk_def upt_2 upt_1 upt_12)


lemma chunk2_2: "chunk2 2 = [(0, 1), (1, 1)]"
  by (simp add: chunk2_def)

lemma write_second_example: "write_dim1 (mk [1, 2, 1, 1] [a, b]) (1, 1) [v] = mk [1, 2, 1, 1] [a, v]"
  by (simp add: write_dim1_def channels_def blocks_def unchannels_def mk_def upt_2 upt_1)

lemma cat_example:
  "cat_dim1 \<lparr>shape = [1, 1, 1, 1], strides = [2, 1, 1, 1], data = [a]\<rparr>
     \<lparr>shape = [1, 1, 1, 1], strides = [2, 1, 1, 1], data = [b]\<rparr> = Inr (mk [1, 2, 1, 1] [a, b])"
  by (simp add: cat_dim1_def channels_def blocks_def unchannels_def mk_def upt_1)

lemma in_place_example:
  "in_place f \<lparr>shape = [1, 1, 1, 1], strides = st, data = [b]\<rparr>
     \<lparr>shape = [1, 1, 1, 1], strides = st', data = [c]\<rparr> = Inr [f b c]"
  by (simp add: in_place_def broadcast_to_def blocks_def upt_1)

lemma constant_module_one_example:
  "constant_module v 1 1 \<lparr>shape = [1, 1, 1, 1], strides = [2, 1, 1, 1], data = [a]\<rparr> =
     Inr \<lparr>shape = [1, 1, 1, 1], strides = [1, 1, 1, 1], data = [v]\<rparr>"
  by (simp add: constant_module_def mk_def)

lemma AdditiveCoupling_forward_example:
  "AdditiveCoupling_forward real_torch (constant_module 1 1 1) (Some (mk [1, 2, 1, 1] [1, 2])) 0 =
     Inr ((Some (mk [1, 2, 1, 1] [1, 3]), 0), mk [1, 2, 1, 1] [1, 3])"
proof -
  have "shape (mk [1, 2, 1, 1] [1, 2 :: real]) = [1, 2, 1, 1]" by (simp add: mk_def)
  then show ?thesis
    by (simp add: AdditiveCoupling_forward_def chunk2_2 narrow_first_example narrow_second_example write_second_example cat_example in_place_example constant_module_one_example real_torch_def
        Let_def del: One_nat_def)
qed


lemma returns_tensors_constant_module: "returns_tensors (constant_module v cin cout)"
  by (auto simp: returns_tensors_def constant_module_def consistent_def mk_def)

text \<open>
  C10 as stated fails: the additive coupling whose function returns ones, called on
  the array \<open>[1, 2]\<close> of size \<open>(1, 2, 1, 1)\<close>, leaves \<open>[1, 3]\<close> in the caller's array.
\<close>

theorem coupling_input_unchanged_counterexample:
  "\<exists>y objective' x'.
     AdditiveCoupling_forward real_torch (constant_module 1 1 1)
       (Some (mk [1, 2, 1, 1] [1, 2])) 0 = Inr ((y, objective'), x') \<and>
     x' \<noteq> mk [1, 2, 1, 1] [1, 2] \<and> data x' = [1, 3]"
  unfolding AdditiveCoupling_forward_example by (simp add: mk_def)

text \<open>The instance of C10 at that call.\<close>

theorem coupling_writes_second_half_witness:
  "consistent (mk [1, 2, 1, 1] [1, 2 :: real]) \<and> returns_tensors (constant_module (1 :: real) 1 1) \<and>
   AdditiveCoupling_forward real_torch (constant_module 1 1 1) (Some (mk [1, 2, 1, 1] [1, 2])) 0 =
     Inr ((Some (mk [1, 2, 1, 1] [1, 3]), 0), mk [1, 2, 1, 1] [1, 3]) \<and>
   shape (mk [1, 2, 1, 1] [1, 3 :: real]) = shape (mk [1, 2, 1, 1] [1, 2 :: real]) \<and>
   strides (mk [1, 2, 1, 1] [1, 3 :: real]) = strides (mk [1, 2, 1, 1] [1, 2 :: real]) \<and>
   data (mk [1, 2, 1, 1] [1, 3 :: real]) = data (mk [1, 2, 1, 1] [1, 3 :: real]) \<and>
   (\<exists>k. chunk2 (shape (mk [1, 2, 1, 1] [1, 2 :: real]) ! 1) =
           [(0, k), (k, shape (mk [1, 2, 1, 1] [1, 2 :: real]) ! 1 - k)] \<and>
        narrow_dim1 (mk [1, 2, 1, 1] [1, 3 :: real]) (0, k) =
        narrow_dim1 (mk [1, 2, 1, 1] [1, 2 :: real]) (0, k))"
proof -
  have c: "consistent (mk [1, 2, 1, 1] [1, 2 :: real])"
    by (simp add: consistent_def mk_def)
  have m: "AdditiveCoupling_forward real_torch (constant_module 1 1 1) \<in>
      {AdditiveCoupling_forward real_torch (constant_module 1 1 1),
       AdditiveCoupling_reverse real_torch (constant_module 1 1 1),
       AffineCoupling_forward real_torch (constant_module 1 1 1),
       AffineCoupling_reverse real_torch (constant_module 1 1 1)}"
    by (rule insertI1)
  have rt: "returns_tensors (constant_module (1 :: real) 1 1)"
    by (rule returns_tensors_constant_module)
  note r = coupling_writes_second_half [OF c rt m AdditiveCoupling_forward_example]
  show ?thesis
    by (rule conjI [OF c conjI [OF rt conjI [OF AdditiveCoupling_forward_example r]]])
qed


section \<open>Invertible1x1Conv\<close>

text \<open>
  C3. Where the determinant, the inverse and the convolutions exist, the forward call
  returns the convolution of \<open>x\<close> with the weight and adds
  \<open>log(abs(det W)) * height * width\<close> of \<open>x\<close> to the objective; the reverse call returns the
  convolution with the inverse weight and, on an array of the same height and width,
  subtracts that same quantity.
\<close>

theorem Invertible1x1Conv_objective:
  assumes "torch_det L (squeeze_all w) = Inr d"
    and "torch_inverse L (squeeze_all w) = Inr wi"
    and "2 \<le> length (shape x)" and "F_conv2d L x w = Inr out"
    and "2 \<le> length (shape y)"
    and "F_conv2d L y (unsqueeze_last (unsqueeze_last wi)) = Inr back"
    and "shape y ! (length (shape y) - 2) = shape x ! (length (shape x) - 2)"
    and "shape y ! (length (shape y) - 1) = shape x ! (length (shape x) - 1)"
  shows "Invertible1x1Conv_forward_and_jacobian T L w (Some x) objective =
           Inr (Some out, f_add T objective (log_abs_det_times T d x)) \<and>
         Invertible1x1Conv_reverse_and_jacobian T L w (Some y) objective' =
           Inr (Some back, f_sub T objective' (log_abs_det_times T d x))"
  using assms
  by (simp add: Invertible1x1Conv_forward_and_jacobian_def
      Invertible1x1Conv_reverse_and_jacobian_def dlogdet_def log_abs_det_times_def)

lemma squeeze_all_example:
  "squeeze_all (mk [2, 2, 1, 1] [a, b, c, d]) = \<lparr>shape = [2, 2], strides = [2, 1], data = [a, b, c, d]\<rparr>"
  by (simp add: squeeze_all_def mk_def)

lemma upt_one: "[0..<1] = [0]"
  by (simp add: upt_rec [of _ "numeral _"] upt_rec [of _ "Suc _"])

lemma conv_example:
  "F_conv2d linalg_2 (mk [1, 2, 1, 1] [u, v]) (mk [2, 2, 1, 1] [a, b, c, d]) =
     Inr (mk [1, 2, 1, 1] [a * u + b * v, c * u + d * v])"
  by (simp add: linalg_2_def mk_def channels_def blocks_def unchannels_def upt_one
      upt_rec [of _ "numeral _"])

text \<open>
  The instance of C3 at the weight \<open>diag(2, 1)\<close> and the array \<open>[3, 4]\<close> of size
  \<open>(1, 2, 1, 1)\<close>: forward gives \<open>[6, 4]\<close>, reverse gives back \<open>[3, 4]\<close>.
\<close>

theorem Invertible1x1Conv_objective_witness:
  "Invertible1x1Conv_forward_and_jacobian real_torch linalg_2 (mk [2, 2, 1, 1] [2, 0, 0, 1])
     (Some (mk [1, 2, 1, 1] [3, 4])) 0 =
     Inr (Some (mk [1, 2, 1, 1] [6, 4]), f_add real_torch 0 (log_abs_det_times real_torch 2 (mk [1, 2, 1, 1] [3, 4]))) \<and>
   Invertible1x1Conv_reverse_and_jacobian real_torch linalg_2 (mk [2, 2, 1, 1] [2, 0, 0, 1])
     (Some (mk [1, 2, 1, 1] [6, 4])) (ln 2) =
     Inr (Some (mk [1, 2, 1, 1] [3, 4]), f_sub real_torch (ln 2) (log_abs_det_times real_torch 2 (mk [1, 2, 1, 1] [3, 4])))"
proof -
  let ?w = "mk [2, 2, 1, 1] [2, 0, 0, 1 :: real]"
  let ?x = "mk [1, 2, 1, 1] [3, 4 :: real]"
  let ?y = "mk [1, 2, 1, 1] [6, 4 :: real]"
  have det: "torch_det linalg_2 (squeeze_all ?w) = Inr 2"
    unfolding squeeze_all_example by (simp add: linalg_2_def)
  have inv: "torch_inverse linalg_2 (squeeze_all ?w) = Inr (mk [2, 2] [1 / 2, 0, 0, 1])"
    unfolding squeeze_all_example by (simp add: linalg_2_def)
  have wi: "unsqueeze_last (unsqueeze_last (mk [2, 2] [1 / 2, 0, 0, 1 :: real])) =
      mk [2, 2, 1, 1] [1 / 2, 0, 0, 1]"
    by (simp add: unsqueeze_last_def mk_def)
  have cx: "F_conv2d linalg_2 ?x ?w = Inr ?y"
    unfolding conv_example by simp
  have cy: "F_conv2d linalg_2 ?y (unsqueeze_last (unsqueeze_last (mk [2, 2] [1 / 2, 0, 0, 1]))) = Inr ?x"
    unfolding wi conv_example by simp
  show ?thesis
    by (rule Invertible1x1Conv_objective [OF det inv _ cx _ cy]) (simp_all add: mk_def)
qed

section \<open>AffineCoupling\<close>

lemma flat_bound:
  fixes i j e b c m :: nat
  assumes "i < b" "j < c" "e < m"
  shows "(i * c + j) * m + e < b * (c * m)"
proof -
  have "i * c + j + 1 \<le> b * c"
  proof -
    have "i * c + c \<le> b * c" using assms(1) by (metis Suc_leI mult_Suc mult_le_mono1 add.commute)
    with assms(2) show ?thesis by simp
  qed
  then have "(i * c + j + 1) * m \<le> b * c * m" by (rule mult_le_mono1)
  with assms(3) show ?thesis by (simp add: algebra_simps)
qed

lemma nth_block:
  assumes "length xs = k * n" "i < k" "e < n"
  shows "blocks k n xs ! i ! e = xs ! (i * n + e)"
proof -
  have "i * n + n \<le> k * n" using assms(2) by (metis Suc_leI mult_Suc mult_le_mono1 add.commute)
  with assms show ?thesis by (simp add: nth_blocks)
qed

lemma flat_index:
  assumes t: "consistent t" "shape t = b # c # rest" and i: "i < b" "j < c" "e < prod_list rest"
  shows "channels t ! i ! j ! e = elem t i j e"
proof -
  let ?m = "prod_list rest"
  have len: "length (data t) = b * (c * ?m)" using t by (simp add: consistent_def)
  have ch: "channels t ! i = blocks c ?m (blocks b (c * ?m) (data t) ! i)"
    using t(2) i(1) by (simp add: channels_def Let_def)
  have bl: "blocks b (c * ?m) (data t) ! i = take (c * ?m) (drop (i * (c * ?m)) (data t))"
    using i(1) by (simp add: nth_blocks)
  have "i * (c * ?m) + c * ?m \<le> b * (c * ?m)"
    using i(1) by (metis Suc_leI mult_Suc mult_le_mono1 add.commute)
  then have l2: "length (blocks b (c * ?m) (data t) ! i) = c * ?m"
    using len by (simp add: bl)
  have je: "j * ?m + e < c * ?m" using flat_bound [of 0 1 j c e ?m] i by simp
  have "channels t ! i ! j ! e = (blocks b (c * ?m) (data t) ! i) ! (j * ?m + e)"
    unfolding ch using nth_block [OF l2 i(2,3)] .
  also have "\<dots> = data t ! (i * (c * ?m) + (j * ?m + e))"
  proof -
    have le: "i * (c * ?m) \<le> length (data t)"
      using len \<open>i * (c * ?m) + c * ?m \<le> b * (c * ?m)\<close> by linarith
    show ?thesis unfolding bl using je by (simp add: nth_drop [OF le])
  qed
  also have "i * (c * ?m) + (j * ?m + e) = (i * c + j) * ?m + e"
    by (simp add: algebra_simps)
  finally show ?thesis using t(2) by (simp add: elem_def)
qed

lemma unchannels_tabulate:
  assumes "chan_shaped b c m css"
  shows "unchannels css =
           concat (map (\<lambda>i. concat (map (\<lambda>j. map (\<lambda>e. css ! i ! j ! e) [0..<m]) [0..<c])) [0..<b])"
proof -
  note D = chan_shapedD [OF assms]
  have "css = map (\<lambda>i. map (\<lambda>j. map (\<lambda>e. css ! i ! j ! e) [0..<m]) [0..<c]) [0..<b]"
  proof (rule nth_equalityI)
    show "length css = length (map (\<lambda>i. map (\<lambda>j. map (\<lambda>e. css ! i ! j ! e) [0..<m]) [0..<c]) [0..<b])"
      using D(1) by simp
  next
    fix i assume i: "i < length css"
    have ci: "css ! i \<in> set css" using i by simp
    have "css ! i = map (\<lambda>j. map (\<lambda>e. css ! i ! j ! e) [0..<m]) [0..<c]"
    proof (rule nth_equalityI)
      show "length (css ! i) = length (map (\<lambda>j. map (\<lambda>e. css ! i ! j ! e) [0..<m]) [0..<c])"
        using D(2) [OF ci] by simp
    next
      fix j assume j: "j < length (css ! i)"
      then have "css ! i ! j \<in> set (css ! i)" by simp
      then have "length (css ! i ! j) = m" using D(3) [OF ci] by blast
      then have "css ! i ! j = map (\<lambda>e. css ! i ! j ! e) [0..<m]"
        by (intro nth_equalityI) simp_all
      then show "css ! i ! j = map (\<lambda>j. map (\<lambda>e. css ! i ! j ! e) [0..<m]) [0..<c] ! j"
        using j D(2) [OF ci] by simp
    qed
    then show "css ! i = map (\<lambda>i. map (\<lambda>j. map (\<lambda>e. css ! i ! j ! e) [0..<m]) [0..<c]) [0..<b] ! i"
      using i D(1) by simp
  qed
  then have "unchannels css =
      unchannels (map (\<lambda>i. map (\<lambda>j. map (\<lambda>e. css ! i ! j ! e) [0..<m]) [0..<c]) [0..<b])"
    by simp
  then show ?thesis by (simp add: unchannels_def comp_def)
qed

lemma filter_evens:
  "filter (\<lambda>j. 0 \<le> j \<and> (j - 0) mod 2 = 0) [0..<2 * k] = map (\<lambda>j. 2 * j) [0..<k]"
  by (induction k) simp_all

lemma filter_odds:
  "filter (\<lambda>j. 1 \<le> j \<and> (j - 1) mod 2 = 0) [0..<2 * k] = map (\<lambda>j. 2 * j + 1) [0..<k]"
proof (induction k)
  case 0
  then show ?case by simp
next
  case (Suc k)
  have "(2 * k - Suc 0) mod 2 = Suc 0" if "Suc 0 \<le> k"
    using that by presburger
  with Suc show ?case by simp
qed

lemma chunk2_even: "chunk2 (2 * k) = [(0, k), (k, k)]"
  by (simp add: chunk2_def Let_def)

lemma elem_data:
  "shape t = b # c # rest \<Longrightarrow> elem t i j e = data t ! ((i * c + j) * prod_list rest + e)"
  by (simp add: elem_def)

lemma narrow_elem:
  assumes x: "consistent x" "shape x = b # c # rest" and r: "s + l \<le> c"
    and i: "i < b" "j < l" "e < prod_list rest"
  shows "elem (narrow_dim1 x (s, l)) i j e = elem x i (s + j) e"
proof -
  note N = narrow_dim1_channels [OF x r]
  note X = channels_shaped [OF x]
  have li: "i < length (channels x)" using chan_shapedD(1) [OF X(1)] i(1) by simp
  then have "channels x ! i \<in> set (channels x)" by simp
  then have lc: "length (channels x ! i) = c" using chan_shapedD(2) [OF X(1)] by blast
  have "elem (narrow_dim1 x (s, l)) i j e = channels (narrow_dim1 x (s, l)) ! i ! j ! e"
    using flat_index [OF N(3) N(1) i] by simp
  also have "\<dots> = channels x ! i ! (s + j) ! e"
    using li lc r i(2) by (simp add: N(4))
  also have "\<dots> = elem x i (s + j) e"
    using flat_index [OF x i(1) _ i(3), of "s + j"] r i(2) by simp
  finally show ?thesis .
qed

lemma affine_core:
  assumes x: "consistent x" "shape x = b # 2 * k # rest"
    and t1: "consistent t1" "shape t1 = b # k # rest"
    and t2: "consistent t2" "shape t2 = b # k # rest"
  shows "\<exists>vs ws y.
           in_place f (narrow_dim1 x (k, k)) t1 = Inr vs \<and>
           in_place g (narrow_dim1 (write_dim1 x (k, k) vs) (k, k)) t2 = Inr ws \<and>
           cat_dim1 (narrow_dim1 (write_dim1 (write_dim1 x (k, k) vs) (k, k) ws) (0, k))
             (narrow_dim1 (write_dim1 (write_dim1 x (k, k) vs) (k, k) ws) (k, k)) = Inr y \<and>
           shape y = shape x \<and> consistent y \<and>
           (\<forall>i<b. \<forall>j<k. \<forall>e<prod_list rest.
              elem y i j e = elem x i j e \<and>
              elem y i (k + j) e = g (f (elem x i (k + j) e) (elem t1 i j e)) (elem t2 i j e))"
proof -
  let ?m = "prod_list rest"
  let ?z2 = "narrow_dim1 x (k, k)"
  let ?vs = "map2 f (data ?z2) (data t1)"
  let ?x1 = "write_dim1 x (k, k) ?vs"
  let ?ws = "map2 g ?vs (data t2)"
  let ?x2 = "write_dim1 ?x1 (k, k) ?ws"
  let ?y = "mk (shape ?x2) (data ?x2)"
  have k2: "k \<le> 2 * k" and kk: "k + k \<le> 2 * k" and km: "2 * k - k = k" and k0: "0 + k \<le> 2 * k"
    by simp_all
  note N2 = narrow_dim1_channels [OF x kk]
  have vs: "in_place f ?z2 t1 = Inr ?vs"
    by (rule in_place_same [OF t1(1)]) (simp add: t1(2) N2(1))
  have vs': "in_place f (narrow_dim1 x (k, 2 * k - k)) t1 = Inr ?vs"
    unfolding km by (rule vs)
  note W1 = in_place_write [OF x k2 t1(1) vs', unfolded km]
  have sh1: "shape ?x1 = b # 2 * k # rest" using W1(1) x(2) by simp
  note N12 = narrow_dim1_channels [OF W1(3) sh1 kk]
  have ws0: "in_place g (narrow_dim1 ?x1 (k, k)) t2 = Inr (map2 g (data (narrow_dim1 ?x1 (k, k))) (data t2))"
    by (rule in_place_same [OF t2(1)]) (simp add: t2(2) N12(1))
  have ws: "in_place g (narrow_dim1 ?x1 (k, k)) t2 = Inr ?ws"
    using ws0 W1(5) by simp
  have ws': "in_place g (narrow_dim1 ?x1 (k, 2 * k - k)) t2 = Inr ?ws"
    unfolding km by (rule ws)
  note W2 = in_place_write [OF W1(3) sh1 k2 t2(1) ws', unfolded km]
  have sh2: "shape ?x2 = b # 2 * k # rest" using W2(1) sh1 by simp
  have y: "cat_dim1 (narrow_dim1 ?x2 (0, k)) (narrow_dim1 ?x2 (k, k)) = Inr ?y"
    using cat_pieces [OF W2(3) sh2 k2] by (simp add: km)
  have shy: "shape ?y = shape x" using sh2 x(2) by (simp add: mk_def)
  have cy: "consistent ?y" using W2(3) by (simp add: consistent_def mk_def)
  have ey: "elem ?y = elem ?x2" by (intro ext) (simp add: elem_def mk_def)
  have lz2: "length (data ?z2) = b * (k * ?m)" using N2(1,3) by (simp add: consistent_def)
  have lt1: "length (data t1) = b * (k * ?m)" using t1 by (simp add: consistent_def)
  have lt2: "length (data t2) = b * (k * ?m)" using t2 by (simp add: consistent_def)
  have el: "elem ?y i j e = elem x i j e \<and>
            elem ?y i (k + j) e = g (f (elem x i (k + j) e) (elem t1 i j e)) (elem t2 i j e)"
    if i: "i < b" "j < k" "e < ?m" for i j e
  proof
    have "elem ?x2 i j e = elem (narrow_dim1 ?x2 (0, k)) i j e"
      using narrow_elem [OF W2(3) sh2 k0 i] by simp
    also have "\<dots> = elem (narrow_dim1 x (0, k)) i j e"
      using W2(4) W1(4) by simp
    also have "\<dots> = elem x i j e"
      using narrow_elem [OF x k0 i] by simp
    finally show "elem ?y i j e = elem x i j e" by (simp add: ey)
  next
    let ?p = "(i * k + j) * ?m + e"
    have p: "?p < b * (k * ?m)" using flat_bound [OF i] .
    have "elem ?x2 i (k + j) e = elem (narrow_dim1 ?x2 (k, k)) i j e"
      using narrow_elem [OF W2(3) sh2 kk i] by simp
    also have "\<dots> = data (narrow_dim1 ?x2 (k, k)) ! ?p"
      using narrow_dim1_channels(1) [OF W2(3) sh2 kk] by (simp add: elem_data)
    also have "\<dots> = ?ws ! ?p" using W2(5) by simp
    also have "\<dots> = g (f (data ?z2 ! ?p) (data t1 ! ?p)) (data t2 ! ?p)"
      using p lz2 lt1 lt2 by simp
    also have "data ?z2 ! ?p = elem ?z2 i j e" using N2(1) by (simp add: elem_data)
    also have "elem ?z2 i j e = elem x i (k + j) e" using narrow_elem [OF x kk i] .
    also have "data t1 ! ?p = elem t1 i j e" using t1(2) by (simp add: elem_data)
    also have "data t2 ! ?p = elem t2 i j e" using t2(2) by (simp add: elem_data)
    finally show "elem ?y i (k + j) e = g (f (elem x i (k + j) e) (elem t1 i j e)) (elem t2 i j e)"
      by (simp add: ey)
  qed
  show ?thesis
    using vs ws y shy cy el by blast
qed

lemma select_elem:
  assumes h: "consistent h" "shape h = b # c # rest"
    and js: "\<And>j. j \<in> set js \<Longrightarrow> j < c"
    and i: "i < b" "j < length js" "e < prod_list rest"
  shows "elem (select_dim1 h js st) i j e = elem h i (js ! j) e"
proof -
  note S = select_dim1_channels [OF h js]
  note H = channels_shaped [OF h]
  have li: "i < length (channels h)" using chan_shapedD(1) [OF H(1)] i(1) by simp
  have "elem (select_dim1 h js st) i j e = channels (select_dim1 h js st) ! i ! j ! e"
    using flat_index [OF S(5) S(1) i] by simp
  also have "\<dots> = channels h ! i ! (js ! j) ! e"
    using li i(2) by (simp add: S(6))
  also have "\<dots> = elem h i (js ! j) e"
    using flat_index [OF h i(1) _ i(3), of "js ! j"] js [of "js ! j"] i(2) by simp
  finally show ?thesis .
qed

lemma data_tabulate:
  assumes t: "consistent t" "shape t = b # c # rest"
  shows "data t =
           concat (map (\<lambda>i. concat (map (\<lambda>j. map (\<lambda>e. elem t i j e) [0..<prod_list rest]) [0..<c]))
                     [0..<b])"
proof -
  note C = channels_shaped [OF t]
  have "data t = unchannels (channels t)" using C(2) by simp
  also have "\<dots> = concat (map (\<lambda>i. concat (map (\<lambda>j. map (\<lambda>e. channels t ! i ! j ! e)
                        [0..<prod_list rest]) [0..<c])) [0..<b])"
    by (rule unchannels_tabulate [OF C(1)])
  also have "\<dots> = concat (map (\<lambda>i. concat (map (\<lambda>j. map (\<lambda>e. elem t i j e)
                        [0..<prod_list rest]) [0..<c])) [0..<b])"
    by (intro arg_cong [where f = concat] map_cong refl) (simp add: flat_index [OF t])
  finally show ?thesis .
qed

lemma shift_and_scale_elems:
  assumes h: "consistent h" "shape h = b # 2 * k # rest"
  shows "\<exists>shift scale.
           shift_and_scale T h = Inr (shift, scale) \<and>
           consistent shift \<and> shape shift = b # k # rest \<and>
           consistent scale \<and> shape scale = b # k # rest \<and>
           (\<forall>i<b. \<forall>j<k. \<forall>e<prod_list rest.
              elem shift i j e = elem h i (2 * j) e \<and> elem scale i j e = scale_at T h i j e) \<and>
           f_sum T (data (unary (f_log T) scale)) = log_scale_sum T h"
proof -
  let ?m = "prod_list rest"
  let ?ev = "map (\<lambda>j. 2 * j) [0..<k]" and ?od = "map (\<lambda>j. 2 * j + 1) [0..<k]"
  let ?shift = "select_dim1 h ?ev ((strides h)[1 := 2 * strides h ! 1])"
  let ?pre = "select_dim1 h ?od ((strides h)[1 := 2 * strides h ! 1])"
  let ?g = "\<lambda>v. f_sigmoid T (f_add T v (lit T 2 0))"
  let ?scale = "unary (f_sigmoid T) (unary (\<lambda>v. f_add T v (lit T 2 0)) ?pre)"
  have ev: "\<And>j. j \<in> set ?ev \<Longrightarrow> j < 2 * k" and od: "\<And>j. j \<in> set ?od \<Longrightarrow> j < 2 * k"
    by auto
  note Sh = select_dim1_channels [where js = "map (\<lambda>j. 2 * j) [0..<k]", OF h ev]
  note Pr = select_dim1_channels [where js = "map (\<lambda>j. 2 * j + 1) [0..<k]", OF h od]
  have s1: "slice_dim1 h 0 2 = Inr ?shift"
    using h(2) filter_evens [of k] by (simp add: slice_dim1_def)
  have s2: "slice_dim1 h 1 2 = Inr ?pre"
    using h(2) filter_odds [of k] by (simp add: slice_dim1_def)
  have ss: "shift_and_scale T h = Inr (?shift, ?scale)"
    unfolding shift_and_scale_def s1 s2 by simp
  have shs: "shape ?shift = b # k # rest" using Sh(1) by simp
  have shp: "shape ?pre = b # k # rest" using Pr(1) by simp
  have dsc: "data ?scale = map ?g (data ?pre)" by (simp add: unary_def mk_def)
  have shc: "shape ?scale = b # k # rest" using shp by (simp add: unary_def mk_def)
  have csc: "consistent ?scale"
    by (intro unary_consistent(1)) (rule Pr(5))
  have lp: "length (data ?pre) = b * (k * ?m)" using Pr(5) shp by (simp add: consistent_def)
  have el: "elem ?shift i j e = elem h i (2 * j) e \<and> elem ?scale i j e = scale_at T h i j e"
    if i: "i < b" "j < k" "e < ?m" for i j e
  proof
    show "elem ?shift i j e = elem h i (2 * j) e"
      using select_elem [where js = "map (\<lambda>j. 2 * j) [0..<k]" and j = j, OF h ev i(1) _ i(3)] i(2)
      by simp
    have "elem ?pre i j e = elem h i (2 * j + 1) e"
      using select_elem [where js = "map (\<lambda>j. 2 * j + 1) [0..<k]" and j = j, OF h od i(1) _ i(3)] i(2)
      by simp
    moreover have "elem ?scale i j e = ?g (elem ?pre i j e)"
    proof -
      let ?p = "(i * k + j) * ?m + e"
      have p: "?p < length (data ?pre)" using flat_bound [OF i] lp by simp
      have "elem ?scale i j e = data ?scale ! ?p" by (rule elem_data [OF shc])
      also have "\<dots> = ?g (data ?pre ! ?p)" unfolding dsc by (rule nth_map [OF p])
      also have "data ?pre ! ?p = elem ?pre i j e" by (rule elem_data [OF shp, symmetric])
      finally show ?thesis .
    qed
    ultimately show "elem ?scale i j e = scale_at T h i j e" by (simp add: scale_at_def)
  qed
  have "data (unary (f_log T) ?scale) = map (f_log T) (data ?scale)"
    by (simp add: unary_def mk_def)
  also have "data ?scale =
      concat (map (\<lambda>i. concat (map (\<lambda>j. map (\<lambda>e. elem ?scale i j e) [0..<?m]) [0..<k])) [0..<b])"
    by (rule data_tabulate [OF csc shc])
  also have "\<dots> =
      concat (map (\<lambda>i. concat (map (\<lambda>j. map (\<lambda>e. scale_at T h i j e) [0..<?m]) [0..<k])) [0..<b])"
    by (intro arg_cong [where f = concat] map_cong refl) (use el in simp)
  finally have "f_sum T (data (unary (f_log T) ?scale)) = log_scale_sum T h"
    using h(2) by (simp add: log_scale_sum_def map_concat comp_def)
  with ss Sh(5) shs csc shc el show ?thesis by blast
qed

text \<open>
  C4. On an array with \<open>2k\<close> channels, with \<open>h = NN(z1)\<close> of the same size: the forward
  call returns an array whose first \<open>k\<close> channels are those of \<open>x\<close> and whose channel
  \<open>k + j\<close> is \<open>(z2 + shift) * scale\<close>, shift being channel \<open>2j\<close> of \<open>h\<close> and scale the
  sigmoid of channel \<open>2j + 1\<close> plus 2, and it adds \<open>sum(log(scale))\<close> to the objective;
  the reverse call returns \<open>z2 / scale - shift\<close> there and subtracts the same sum.
\<close>

theorem AffineCoupling_formulas:
  assumes x: "consistent x" "shape x = b # 2 * k # rest"
    and h: "nn (narrow_dim1 x (0, k)) = Inr h" "consistent h" "shape h = b # 2 * k # rest"
  shows "(\<exists>y. AffineCoupling_forward_and_jacobian T nn (Some x) objective =
                 Inr (Some y, f_add T objective (log_scale_sum T h)) \<and>
               shape y = shape x \<and> consistent y \<and>
               (\<forall>i<b. \<forall>j<k. \<forall>e<prod_list rest.
                  elem y i j e = elem x i j e \<and>
                  elem y i (k + j) e =
                    f_mul T (f_add T (elem x i (k + j) e) (elem h i (2 * j) e))
                      (scale_at T h i j e))) \<and>
         (\<exists>z. AffineCoupling_reverse_and_jacobian T nn (Some x) objective =
                 Inr (Some z, f_sub T objective (log_scale_sum T h)) \<and>
               shape z = shape x \<and> consistent z \<and>
               (\<forall>i<b. \<forall>j<k. \<forall>e<prod_list rest.
                  elem z i j e = elem x i j e \<and>
                  elem z i (k + j) e =
                    f_sub T (f_div T (elem x i (k + j) e) (scale_at T h i j e))
                      (elem h i (2 * j) e)))"
proof -
  from shift_and_scale_elems [OF h(2,3), of T] obtain shift scale where
    ss: "shift_and_scale T h = Inr (shift, scale)"
    and sh: "consistent shift" "shape shift = b # k # rest"
    and sc: "consistent scale" "shape scale = b # k # rest"
    and el: "\<And>i j e. i < b \<Longrightarrow> j < k \<Longrightarrow> e < prod_list rest \<Longrightarrow>
               elem shift i j e = elem h i (2 * j) e \<and> elem scale i j e = scale_at T h i j e"
    and sum: "f_sum T (data (unary (f_log T) scale)) = log_scale_sum T h"
    by blast
  have d: "\<not> length (shape x) < 2" and c: "chunk2 (shape x ! Suc 0) = [(0, k), (k, k)]"
    using x(2) by (simp_all add: chunk2_even)
  show ?thesis
  proof
    from affine_core [OF x sh sc, of "f_add T" "f_mul T"] obtain vs ws y where
      f: "in_place (f_add T) (narrow_dim1 x (k, k)) shift = Inr vs"
         "in_place (f_mul T) (narrow_dim1 (write_dim1 x (k, k) vs) (k, k)) scale = Inr ws"
         "cat_dim1 (narrow_dim1 (write_dim1 (write_dim1 x (k, k) vs) (k, k) ws) (0, k))
            (narrow_dim1 (write_dim1 (write_dim1 x (k, k) vs) (k, k) ws) (k, k)) = Inr y"
      and y: "shape y = shape x" "consistent y"
        "\<And>i j e. i < b \<Longrightarrow> j < k \<Longrightarrow> e < prod_list rest \<Longrightarrow>
           elem y i j e = elem x i j e \<and>
           elem y i (k + j) e =
             f_mul T (f_add T (elem x i (k + j) e) (elem shift i j e)) (elem scale i j e)"
      by blast
    have "AffineCoupling_forward_and_jacobian T nn (Some x) objective =
            Inr (Some y, f_add T objective (log_scale_sum T h))"
      unfolding AffineCoupling_forward_and_jacobian_def AffineCoupling_forward_def returned_def
      using d by (simp add: c h(1) ss f sum Let_def)
    with y el show "\<exists>y. AffineCoupling_forward_and_jacobian T nn (Some x) objective =
                 Inr (Some y, f_add T objective (log_scale_sum T h)) \<and>
               shape y = shape x \<and> consistent y \<and>
               (\<forall>i<b. \<forall>j<k. \<forall>e<prod_list rest.
                  elem y i j e = elem x i j e \<and>
                  elem y i (k + j) e =
                    f_mul T (f_add T (elem x i (k + j) e) (elem h i (2 * j) e))
                      (scale_at T h i j e))"
      by (intro exI [of _ y]) simp
  next
    from affine_core [OF x sc sh, of "f_div T" "f_sub T"] obtain vs ws z where
      f: "in_place (f_div T) (narrow_dim1 x (k, k)) scale = Inr vs"
         "in_place (f_sub T) (narrow_dim1 (write_dim1 x (k, k) vs) (k, k)) shift = Inr ws"
         "cat_dim1 (narrow_dim1 (write_dim1 (write_dim1 x (k, k) vs) (k, k) ws) (0, k))
            (narrow_dim1 (write_dim1 (write_dim1 x (k, k) vs) (k, k) ws) (k, k)) = Inr z"
      and z: "shape z = shape x" "consistent z"
        "\<And>i j e. i < b \<Longrightarrow> j < k \<Longrightarrow> e < prod_list rest \<Longrightarrow>
           elem z i j e = elem x i j e \<and>
           elem z i (k + j) e =
             f_sub T (f_div T (elem x i (k + j) e) (elem scale i j e)) (elem shift i j e)"
      by blast
    have "AffineCoupling_reverse_and_jacobian T nn (Some x) objective =
            Inr (Some z, f_sub T objective (log_scale_sum T h))"
      unfolding AffineCoupling_reverse_and_jacobian_def AffineCoupling_reverse_def returned_def
      using d by (simp add: c h(1) ss f sum Let_def)
    with z el show "\<exists>z. AffineCoupling_reverse_and_jacobian T nn (Some x) objective =
                 Inr (Some z, f_sub T objective (log_scale_sum T h)) \<and>
               shape z = shape x \<and> consistent z \<and>
               (\<forall>i<b. \<forall>j<k. \<forall>e<prod_list rest.
                  elem z i j e = elem x i j e \<and>
                  elem z i (k + j) e =
                    f_sub T (f_div T (elem x i (k + j) e) (scale_at T h i j e))
                      (elem h i (2 * j) e))"
      by (intro exI [of _ z]) simp
  qed
qed

lemma constant_module_example:
  "constant_module v 1 2 \<lparr>shape = [1, 1, 1, 1], strides = [2, 1, 1, 1], data = [a]\<rparr> =
     Inr (mk [1, 2, 1, 1] [v, v])"
  by (simp add: constant_module_def mk_def numeral_2_eq_2)

text \<open>
  The instance of C4 at the array \<open>[1, 2]\<close> of size \<open>(1, 2, 1, 1)\<close> and the function
  returning zeros.
\<close>

theorem AffineCoupling_formulas_witness:
  "consistent (mk [1, 2, 1, 1] [1, 2 :: real]) \<and>
   shape (mk [1, 2, 1, 1] [1, 2 :: real]) = 1 # 2 * 1 # [1, 1] \<and>
   constant_module 0 1 2 (narrow_dim1 (mk [1, 2, 1, 1] [1, 2 :: real]) (0, 1)) =
     Inr (mk [1, 2, 1, 1] [0, 0]) \<and>
   (\<exists>y. AffineCoupling_forward_and_jacobian real_torch (constant_module 0 1 2)
          (Some (mk [1, 2, 1, 1] [1, 2])) 0 =
          Inr (Some y, f_add real_torch 0 (log_scale_sum real_torch (mk [1, 2, 1, 1] [0, 0]))) \<and>
        shape y = shape (mk [1, 2, 1, 1] [1, 2 :: real]) \<and> consistent y \<and>
        (\<forall>i<1. \<forall>j<1. \<forall>e<prod_list [1, 1].
           elem y i j e = elem (mk [1, 2, 1, 1] [1, 2]) i j e \<and>
           elem y i (1 + j) e =
             f_mul real_torch
               (f_add real_torch (elem (mk [1, 2, 1, 1] [1, 2]) i (1 + j) e)
                  (elem (mk [1, 2, 1, 1] [0, 0]) i (2 * j) e))
               (scale_at real_torch (mk [1, 2, 1, 1] [0, 0]) i j e))) \<and>
   (\<exists>z. AffineCoupling_reverse_and_jacobian real_torch (constant_module 0 1 2)
          (Some (mk [1, 2, 1, 1] [1, 2])) 0 =
          Inr (Some z, f_sub real_torch 0 (log_scale_sum real_torch (mk [1, 2, 1, 1] [0, 0]))) \<and>
        shape z = shape (mk [1, 2, 1, 1] [1, 2 :: real]) \<and> consistent z \<and>
        (\<forall>i<1. \<forall>j<1. \<forall>e<prod_list [1, 1].
           elem z i j e = elem (mk [1, 2, 1, 1] [1, 2]) i j e \<and>
           elem z i (1 + j) e =
             f_sub real_torch
               (f_div real_torch (elem (mk [1, 2, 1, 1] [1, 2]) i (1 + j) e)
                  (scale_at real_torch (mk [1, 2, 1, 1] [0, 0]) i j e))
               (elem (mk [1, 2, 1, 1] [0, 0]) i (2 * j) e)))"
proof -
  let ?x = "mk [1, 2, 1, 1] [1, 2 :: real]" and ?h = "mk [1, 2, 1, 1] [0, 0 :: real]"
  have c: "consistent ?x" by (simp add: consistent_def mk_def)
  have s: "shape ?x = 1 # 2 * 1 # [1, 1]" by (simp add: mk_def)
  have n: "constant_module 0 1 2 (narrow_dim1 ?x (0, 1)) = Inr ?h"
    unfolding narrow_first_example constant_module_example ..
  have ch: "consistent ?h" by (simp add: consistent_def mk_def)
  have sh: "shape ?h = 1 # 2 * 1 # [1, 1]" by (simp add: mk_def)
  note r = AffineCoupling_formulas
    [where nn = "constant_module 0 1 2" and T = real_torch and objective = 0, OF c s n ch sh]
  show ?thesis
    by (rule conjI [OF c conjI [OF s conjI [OF n r]]])
qed

end
